theory Spec2Isabelle
  imports Complex_Main
begin

section \<open>Tensors\<close>

text \<open>
  The program is a PyTorch module (\<^verbatim>\<open>src/models/BnnModel.py\<close>). A tensor is its shape
  together with its elements in row-major order, as the library stores a contiguous
  tensor. Elements are modelled as real numbers and the arithmetic is exact, except
  in the section on the divergence in floating-point arithmetic, where the rounding
  and the range of the machine floats are part of the definitions.
\<close>

record tensor =
  shape :: "nat list"
  data :: "real list"

definition wf_tensor :: "tensor \<Rightarrow> bool" where
  "wf_tensor t \<longleftrightarrow> length (data t) = prod_list (shape t)"

text \<open>The exceptions the library raises on the paths of this program.\<close>

datatype error = RuntimeError | ValueError | TypeError

text \<open>
  The process-wide random generator, as the sequence of standard-normal draws its state
  will produce. \<open>randn k\<close> consumes the next \<open>k\<close> draws.
\<close>

type_synonym rng = "nat \<Rightarrow> real"

definition randn :: "nat \<Rightarrow> rng \<Rightarrow> real list \<times> rng" where
  "randn k g = (map g [0..<k], \<lambda>i. g (k + i))"

subsection \<open>Broadcasting\<close>

text \<open>
  Shapes are aligned at their last dimension; two sizes are compatible when they
  are equal or one of them is 1. \<open>broadcast_rev\<close> works on the reversed shapes.
\<close>

fun broadcast_rev :: "nat list \<Rightarrow> nat list \<Rightarrow> nat list option" where
  "broadcast_rev [] bs = Some bs"
| "broadcast_rev (a # as) [] = Some (a # as)"
| "broadcast_rev (a # as) (b # bs) =
     (if a = b \<or> a = 1 \<or> b = 1
      then map_option ((#) (if a = 1 then b else a)) (broadcast_rev as bs)
      else None)"

definition broadcast_shapes :: "nat list \<Rightarrow> nat list \<Rightarrow> nat list option" where
  "broadcast_shapes a b = map_option rev (broadcast_rev (rev a) (rev b))"

text \<open>
  \<open>expand_data ds Ds xs\<close> lays the elements \<open>xs\<close> of a tensor of shape \<open>ds\<close> out in
  the shape \<open>Ds\<close> of the same rank: a dimension of size 1 is repeated.
\<close>

fun expand_data :: "nat list \<Rightarrow> nat list \<Rightarrow> real list \<Rightarrow> real list" where
  "expand_data (d # ds) (D # Ds) xs =
     (let chunks = map (\<lambda>i. expand_data ds Ds (take (prod_list ds) (drop (i * prod_list ds) xs)))
                       [0..<d]
      in if d = D then concat chunks else concat (replicate D (concat chunks)))"
| "expand_data ds Ds xs = xs"

definition expand :: "tensor \<Rightarrow> nat list \<Rightarrow> real list" where
  "expand t s = expand_data (replicate (length s - length (shape t)) 1 @ shape t) s (data t)"

subsection \<open>Elementwise operations of the library\<close>

definition torch_exp :: "tensor \<Rightarrow> tensor" where
  "torch_exp t = \<lparr>shape = shape t, data = map exp (data t)\<rparr>"

definition zeros_like :: "tensor \<Rightarrow> tensor" where
  "zeros_like t = \<lparr>shape = shape t, data = map (\<lambda>_. 0) (data t)\<rparr>"

definition F_relu :: "tensor \<Rightarrow> tensor" where
  "F_relu t = \<lparr>shape = shape t, data = map (max 0) (data t)\<rparr>"

definition tensor_sum :: "tensor \<Rightarrow> real" where
  "tensor_sum t = sum_list (data t)"

subsection \<open>\<^verbatim>\<open>torch.distributions.Normal\<close>\<close>

text \<open>
  The constructor broadcasts \<open>loc\<close> and \<open>scale\<close> to a common batch shape and
  validates that every scale is positive.
\<close>

record normal =
  loc :: tensor
  scale :: tensor

definition Normal :: "tensor \<Rightarrow> tensor \<Rightarrow> error + normal" where
  "Normal l s =
     (case broadcast_shapes (shape l) (shape s) of
        None \<Rightarrow> Inl RuntimeError
      | Some bs \<Rightarrow>
          if list_all (\<lambda>v. 0 < v) (expand s bs)
          then Inr \<lparr>loc = \<lparr>shape = bs, data = expand l bs\<rparr>,
                    scale = \<lparr>shape = bs, data = expand s bs\<rparr>\<rparr>
          else Inl ValueError)"

text \<open>\<^verbatim>\<open>rsample\<close>: \<^verbatim>\<open>loc + eps * scale\<close> with \<open>eps\<close> freshly drawn, one per element.\<close>

definition rsample :: "normal \<Rightarrow> rng \<Rightarrow> tensor \<times> rng" where
  "rsample d g =
     (let (eps, g') = randn (prod_list (shape (loc d))) g
      in (\<lparr>shape = shape (loc d),
           data = map (\<lambda>(m, e, s). m + e * s) (zip (data (loc d)) (zip eps (data (scale d))))\<rparr>,
          g'))"

text \<open>
  \<^verbatim>\<open>log_prob\<close>: the value must be broadcastable with the batch shape; the density
  is computed as the library writes it,
  \<^verbatim>\<open>-((value - loc) ** 2) / (2 * var) - log_scale - math.log(math.sqrt(2 * math.pi))\<close>.
\<close>

definition log_prob :: "normal \<Rightarrow> tensor \<Rightarrow> error + tensor" where
  "log_prob d v =
     (case broadcast_shapes (shape v) (shape (loc d)) of
        None \<Rightarrow> Inl ValueError
      | Some bs \<Rightarrow>
          Inr \<lparr>shape = bs,
               data = map (\<lambda>(x, m, s). - ((x - m)\<^sup>2) / (2 * s\<^sup>2) - ln s - ln (sqrt (2 * pi)))
                          (zip (expand v bs) (zip (expand (loc d) bs) (expand (scale d) bs)))\<rparr>)"

text \<open>
  \<^verbatim>\<open>torch.distributions.kl.kl_divergence\<close> for two normal distributions:
  \<^verbatim>\<open>var_ratio = (p.scale / q.scale).pow(2); t1 = ((p.loc - q.loc) / q.scale).pow(2);
  0.5 * (var_ratio + t1 - 1 - var_ratio.log())\<close>. Both distributions of every call in
  this program are built from one pair of parameter shapes, so their batch shapes
  agree; other pairs are refused.
\<close>

definition kl_elem :: "real \<Rightarrow> real \<Rightarrow> real \<Rightarrow> real \<Rightarrow> real" where
  "kl_elem pm ps qm qs =
     (let var_ratio = (ps / qs)\<^sup>2; t1 = ((pm - qm) / qs)\<^sup>2
      in 0.5 * (var_ratio + t1 - 1 - ln var_ratio))"

definition kl_normal_normal :: "normal \<Rightarrow> normal \<Rightarrow> error + tensor" where
  "kl_normal_normal p q =
     (if shape (loc p) = shape (loc q)
      then Inr \<lparr>shape = shape (loc p),
                data = map (\<lambda>((pm, ps), (qm, qs)). kl_elem pm ps qm qs)
                           (zip (zip (data (loc p)) (data (scale p)))
                                (zip (data (loc q)) (data (scale q))))\<rparr>
      else Inl RuntimeError)"

section \<open>\<^verbatim>\<open>BnnLayer\<close>\<close>

record BnnLayer =
  in_features :: int
  out_features :: int
  weight_mu :: tensor
  weight_std :: tensor
  bias_mu :: tensor
  bias_std :: tensor

text \<open>\<^verbatim>\<open>BnnLayer.kl_divergence\<close>: posterior against the zero-mean prior, summed.\<close>

definition kl_pair :: "tensor \<Rightarrow> tensor \<Rightarrow> error + real" where
  "kl_pair mu std =
     (case Normal (zeros_like mu) (torch_exp std) of
        Inl e \<Rightarrow> Inl e
      | Inr prior \<Rightarrow>
          (case Normal mu (torch_exp std) of
             Inl e \<Rightarrow> Inl e
           | Inr posterior \<Rightarrow>
               (case kl_normal_normal posterior prior of
                  Inl e \<Rightarrow> Inl e
                | Inr t \<Rightarrow> Inr (tensor_sum t))))"

definition BnnLayer_kl_divergence :: "BnnLayer \<Rightarrow> error + real" where
  "BnnLayer_kl_divergence l =
     (case kl_pair (weight_mu l) (weight_std l) of
        Inl e \<Rightarrow> Inl e
      | Inr kl_weight \<Rightarrow>
          (case kl_pair (bias_mu l) (bias_std l) of
             Inl e \<Rightarrow> Inl e
           | Inr kl_bias \<Rightarrow> Inr (kl_weight + kl_bias)))"


subsection \<open>Allocation and initialisation\<close>

text \<open>
  \<^verbatim>\<open>torch.Tensor(d1, ..., dn)\<close> allocates a tensor of the given sizes and raises when
  a size is negative. The memory is uninitialised in the library; \<open>reset_parameters\<close>
  overwrites every element before it is read, and the model fills in zeros.
\<close>

definition torch_Tensor :: "int list \<Rightarrow> error + tensor" where
  "torch_Tensor dims =
     (if list_ex (\<lambda>d. d < 0) dims then Inl RuntimeError
      else Inr \<lparr>shape = map nat dims, data = replicate (prod_list (map nat dims)) 0\<rparr>)"

text \<open>
  \<^verbatim>\<open>nn.init.kaiming_normal_(t, mode="fan_in", nonlinearity="relu")\<close>: a tensor without
  elements is left alone; otherwise the fan-in is the second size times the
  receptive field, the gain of a ReLU is \<open>sqrt 2\<close>, and every element is drawn from
  a normal distribution of mean 0 and standard deviation \<open>gain / sqrt fan_in\<close>.
\<close>

definition init_kaiming_normal :: "tensor \<Rightarrow> rng \<Rightarrow> (error + tensor) \<times> rng" where
  "init_kaiming_normal t g =
     (if 0 \<in> set (shape t) then (Inr t, g)
      else (case shape t of
              d0 # d1 # rest \<Rightarrow>
                (let fan = d1 * prod_list rest;
                     gain = sqrt 2;
                     std = gain / sqrt (real fan);
                     (eps, g') = randn (prod_list (shape t)) g
                 in (Inr \<lparr>shape = shape t, data = map (\<lambda>e. 0 + std * e) eps\<rparr>, g'))
            | _ \<Rightarrow> (Inl ValueError, g)))"

definition init_constant :: "tensor \<Rightarrow> real \<Rightarrow> tensor" where
  "init_constant t v = \<lparr>shape = shape t, data = map (\<lambda>_. v) (data t)\<rparr>"

definition init_zeros :: "tensor \<Rightarrow> tensor" where
  "init_zeros t = \<lparr>shape = shape t, data = map (\<lambda>_. 0) (data t)\<rparr>"

definition reset_parameters :: "BnnLayer \<Rightarrow> rng \<Rightarrow> (error + BnnLayer) \<times> rng" where
  "reset_parameters l g =
     (case init_kaiming_normal (weight_mu l) g of
        (Inl e, g') \<Rightarrow> (Inl e, g')
      | (Inr wm, g') \<Rightarrow>
          (Inr (l\<lparr>weight_mu := wm,
                  weight_std := init_constant (weight_std l) (- 5.0),
                  bias_mu := init_zeros (bias_mu l),
                  bias_std := init_constant (bias_std l) (- 5.0)\<rparr>), g'))"

text \<open>\<^verbatim>\<open>BnnLayer.__init__\<close>: four allocations, then \<open>reset_parameters\<close>.\<close>

definition BnnLayer_init :: "int \<Rightarrow> int \<Rightarrow> rng \<Rightarrow> (error + BnnLayer) \<times> rng" where
  "BnnLayer_init n_in n_out g =
     (case torch_Tensor [n_out, n_in] of
        Inl e \<Rightarrow> (Inl e, g)
      | Inr wm \<Rightarrow>
     (case torch_Tensor [n_out, n_in] of
        Inl e \<Rightarrow> (Inl e, g)
      | Inr ws \<Rightarrow>
     (case torch_Tensor [n_out] of
        Inl e \<Rightarrow> (Inl e, g)
      | Inr bm \<Rightarrow>
     (case torch_Tensor [n_out] of
        Inl e \<Rightarrow> (Inl e, g)
      | Inr bs \<Rightarrow>
          reset_parameters
            \<lparr>in_features = n_in, out_features = n_out,
             weight_mu = wm, weight_std = ws, bias_mu = bm, bias_std = bs\<rparr> g))))"

subsection \<open>Forward pass of a layer\<close>

text \<open>
  \<^verbatim>\<open>F.linear(x, weight, bias)\<close> for a weight matrix of shape \<open>[out, in]\<close> and a bias
  vector of shape \<open>[out]\<close>, which is what the layer passes: every row of \<open>x\<close> (the
  last dimension) is multiplied with every row of the weight, and the bias is added.
  An input without dimensions, or whose last size is not \<open>in\<close>, raises.
\<close>

definition rows :: "nat \<Rightarrow> nat \<Rightarrow> real list \<Rightarrow> real list list" where
  "rows n k xs = map (\<lambda>r. take k (drop (r * k) xs)) [0..<n]"

definition dot :: "real list \<Rightarrow> real list \<Rightarrow> real" where
  "dot xs ys = sum_list (map (\<lambda>(x, y). x * y) (zip xs ys))"

definition F_linear :: "tensor \<Rightarrow> tensor \<Rightarrow> tensor \<Rightarrow> error + tensor" where
  "F_linear x w b =
     (case shape w of
        [n_out, n_in] \<Rightarrow>
          if shape b \<noteq> [n_out] \<or> shape x = [] \<or> last (shape x) \<noteq> n_in then Inl RuntimeError
          else Inr \<lparr>shape = butlast (shape x) @ [n_out],
                    data = concat (map (\<lambda>xr. map (\<lambda>(wr, bj). dot xr wr + bj)
                                                  (zip (rows n_out n_in (data w)) (data b)))
                                       (rows (prod_list (butlast (shape x))) n_in (data x)))\<rparr>
      | _ \<Rightarrow> Inl RuntimeError)"

text \<open>\<^verbatim>\<open>BnnLayer.forward\<close>: sample a weight, sample a bias, apply the affine map.\<close>

definition BnnLayer_forward :: "BnnLayer \<Rightarrow> tensor \<Rightarrow> rng \<Rightarrow> (error + tensor) \<times> rng" where
  "BnnLayer_forward l x g =
     (case Normal (weight_mu l) (torch_exp (weight_std l)) of
        Inl e \<Rightarrow> (Inl e, g)
      | Inr dw \<Rightarrow>
          (let (weight, g1) = rsample dw g
           in (case Normal (bias_mu l) (torch_exp (bias_std l)) of
                 Inl e \<Rightarrow> (Inl e, g1)
               | Inr db \<Rightarrow>
                   (let (bias, g2) = rsample db g1
                    in (F_linear x weight bias, g2)))))"

section \<open>\<^verbatim>\<open>BayesianModel\<close>\<close>

record BayesianModel =
  layers :: "BnnLayer list"
  output_layer :: BnnLayer

text \<open>
  \<^verbatim>\<open>BayesianModel.__init__\<close>: the list comprehension over \<^verbatim>\<open>range(num_layers)\<close>
  builds the hidden layers in order, then the output layer is built.
\<close>

fun build_layers :: "int \<Rightarrow> int \<Rightarrow> nat list \<Rightarrow> rng \<Rightarrow> (error + BnnLayer list) \<times> rng" where
  "build_layers input_size hidden_size [] g = (Inr [], g)"
| "build_layers input_size hidden_size (i # is) g =
     (case (if i = 0 then BnnLayer_init input_size hidden_size g
            else BnnLayer_init hidden_size hidden_size g) of
        (Inl e, g1) \<Rightarrow> (Inl e, g1)
      | (Inr l, g1) \<Rightarrow>
          (case build_layers input_size hidden_size is g1 of
             (Inl e, g2) \<Rightarrow> (Inl e, g2)
           | (Inr ls, g2) \<Rightarrow> (Inr (l # ls), g2)))"

definition BayesianModel_init ::
  "int \<Rightarrow> int \<Rightarrow> int \<Rightarrow> int \<Rightarrow> rng \<Rightarrow> (error + BayesianModel) \<times> rng" where
  "BayesianModel_init input_size hidden_size output_size num_layers g =
     (case build_layers input_size hidden_size [0..<nat num_layers] g of
        (Inl e, g1) \<Rightarrow> (Inl e, g1)
      | (Inr ls, g1) \<Rightarrow>
          (case BnnLayer_init hidden_size output_size g1 of
             (Inl e, g2) \<Rightarrow> (Inl e, g2)
           | (Inr out, g2) \<Rightarrow> (Inr \<lparr>layers = ls, output_layer = out\<rparr>, g2)))"

text \<open>\<^verbatim>\<open>BayesianModel.forward\<close>: the loop over the hidden layers, then the output layer.\<close>

fun forward_loop :: "BnnLayer list \<Rightarrow> tensor \<Rightarrow> rng \<Rightarrow> (error + tensor) \<times> rng" where
  "forward_loop [] x g = (Inr x, g)"
| "forward_loop (layer # ls) x g =
     (case BnnLayer_forward layer x g of
        (Inl e, g1) \<Rightarrow> (Inl e, g1)
      | (Inr h, g1) \<Rightarrow> forward_loop ls (F_relu h) g1)"

definition BayesianModel_forward ::
  "BayesianModel \<Rightarrow> tensor \<Rightarrow> rng \<Rightarrow> (error + tensor) \<times> rng" where
  "BayesianModel_forward m x g =
     (case forward_loop (layers m) x g of
        (Inl e, g1) \<Rightarrow> (Inl e, g1)
      | (Inr h, g1) \<Rightarrow> BnnLayer_forward (output_layer m) h g1)"

text \<open>\<^verbatim>\<open>BayesianModel.kl_divergence\<close>: the accumulator starts at 0.\<close>

fun kl_loop :: "BnnLayer list \<Rightarrow> real \<Rightarrow> error + real" where
  "kl_loop [] kl = Inr kl"
| "kl_loop (layer # ls) kl =
     (case BnnLayer_kl_divergence layer of
        Inl e \<Rightarrow> Inl e
      | Inr k \<Rightarrow> kl_loop ls (kl + k))"

definition BayesianModel_kl_divergence :: "BayesianModel \<Rightarrow> error + real" where
  "BayesianModel_kl_divergence m =
     (case kl_loop (layers m) 0 of
        Inl e \<Rightarrow> Inl e
      | Inr kl \<Rightarrow>
          (case BnnLayer_kl_divergence (output_layer m) of
             Inl e \<Rightarrow> Inl e
           | Inr k \<Rightarrow> Inr (kl + k)))"

subsection \<open>\<^verbatim>\<open>elbo_loss\<close>\<close>

text \<open>The loop \<^verbatim>\<open>for _ in range(num_samples)\<close> collecting the outputs.\<close>

fun sample_outputs ::
  "BayesianModel \<Rightarrow> tensor \<Rightarrow> nat \<Rightarrow> rng \<Rightarrow> (error + tensor list) \<times> rng" where
  "sample_outputs m x 0 g = (Inr [], g)"
| "sample_outputs m x (Suc k) g =
     (case BayesianModel_forward m x g of
        (Inl e, g1) \<Rightarrow> (Inl e, g1)
      | (Inr output, g1) \<Rightarrow>
          (case sample_outputs m x k g1 of
             (Inl e, g2) \<Rightarrow> (Inl e, g2)
           | (Inr outputs, g2) \<Rightarrow> (Inr (output # outputs), g2)))"

text \<open>
  \<^verbatim>\<open>torch.stack\<close> refuses an empty list and tensors of different shapes; the result
  has the number of tensors as a new first dimension.
\<close>

definition torch_stack :: "tensor list \<Rightarrow> error + tensor" where
  "torch_stack ts =
     (case ts of
        [] \<Rightarrow> Inl RuntimeError
      | t # _ \<Rightarrow>
          if list_all (\<lambda>u. shape u = shape t) ts
          then Inr \<lparr>shape = length ts # shape t, data = concat (map data ts)\<rparr>
          else Inl RuntimeError)"

text \<open>
  \<^verbatim>\<open>t.mean(0)\<close>: the mean over the first dimension. The tensor this program passes
  comes from \<open>torch_stack\<close>, whose first dimension is at least 1.
\<close>

definition mean0 :: "tensor \<Rightarrow> error + tensor" where
  "mean0 t =
     (case shape t of
        [] \<Rightarrow> Inl RuntimeError
      | n # s \<Rightarrow>
          Inr \<lparr>shape = s,
               data = map (\<lambda>j. sum_list (map (\<lambda>c. c ! j) (rows n (prod_list s) (data t))) / real n)
                          [0..<prod_list s]\<rparr>)"

text \<open>\<^verbatim>\<open>len(x)\<close> is the first size of \<open>x\<close>; a tensor without dimensions has no length.\<close>

definition len :: "tensor \<Rightarrow> error + nat" where
  "len x = (case shape x of [] \<Rightarrow> Inl TypeError | n # _ \<Rightarrow> Inr n)"

text \<open>
  Dividing a tensor by the integer 0 raises nothing: the float result is infinite or
  NaN. \<open>None\<close> stands for such a value, which no real number represents.
\<close>

definition div_len :: "real \<Rightarrow> nat \<Rightarrow> real option" where
  "div_len kl n = (if n = 0 then None else Some (kl / real n))"

definition scalar :: "real \<Rightarrow> tensor" where
  "scalar v = \<lparr>shape = [], data = [v]\<rparr>"

definition elbo_loss ::
  "BayesianModel \<Rightarrow> tensor \<Rightarrow> tensor \<Rightarrow> int \<Rightarrow> rng \<Rightarrow> (error + real option) \<times> rng" where
  "elbo_loss m x y num_samples g =
     (case BayesianModel_kl_divergence m of
        Inl e \<Rightarrow> (Inl e, g)
      | Inr kl \<Rightarrow>
     (case sample_outputs m x (nat num_samples) g of
        (Inl e, g1) \<Rightarrow> (Inl e, g1)
      | (Inr outputs, g1) \<Rightarrow>
     (case torch_stack outputs of
        Inl e \<Rightarrow> (Inl e, g1)
      | Inr stacked \<Rightarrow>
     (case mean0 stacked of
        Inl e \<Rightarrow> (Inl e, g1)
      | Inr y_hat \<Rightarrow>
     (case Normal y_hat (scalar 1) of
        Inl e \<Rightarrow> (Inl e, g1)
      | Inr d \<Rightarrow>
     (case log_prob d y of
        Inl e \<Rightarrow> (Inl e, g1)
      | Inr lp \<Rightarrow>
     (let log_likelihood = tensor_sum lp
      in (case len x of
            Inl e \<Rightarrow> (Inl e, g1)
          | Inr n \<Rightarrow>
              (let elbo = map_option (\<lambda>q. log_likelihood - q) (div_len kl n)
               in (Inr (map_option uminus elbo), g1))))))))))"


section \<open>Invariants and reference definitions\<close>

text \<open>
  What \<open>BnnLayer_init\<close> establishes and nothing in the module changes: the four
  parameter tensors have the shapes they were allocated with. An optimiser changes
  their elements only.
\<close>

definition layer_inv :: "BnnLayer \<Rightarrow> bool" where
  "layer_inv l \<longleftrightarrow>
     0 \<le> in_features l \<and> 0 \<le> out_features l \<and>
     shape (weight_mu l) = [nat (out_features l), nat (in_features l)] \<and>
     shape (weight_std l) = [nat (out_features l), nat (in_features l)] \<and>
     shape (bias_mu l) = [nat (out_features l)] \<and>
     shape (bias_std l) = [nat (out_features l)] \<and>
     wf_tensor (weight_mu l) \<and> wf_tensor (weight_std l) \<and>
     wf_tensor (bias_mu l) \<and> wf_tensor (bias_std l)"

text \<open>Consecutive layers fit: the width a layer produces is the width the next one takes.\<close>

fun chained :: "BnnLayer list \<Rightarrow> bool" where
  "chained (a # b # ls) \<longleftrightarrow> out_features a = in_features b \<and> chained (b # ls)"
| "chained ls \<longleftrightarrow> True"

definition all_layers :: "BayesianModel \<Rightarrow> BnnLayer list" where
  "all_layers m = layers m @ [output_layer m]"

definition model_inv :: "BayesianModel \<Rightarrow> bool" where
  "model_inv m \<longleftrightarrow> list_all layer_inv (all_layers m) \<and> chained (all_layers m)"

definition model_in :: "BayesianModel \<Rightarrow> nat" where
  "model_in m = nat (in_features (hd (all_layers m)))"

definition model_out :: "BayesianModel \<Rightarrow> nat" where
  "model_out m = nat (out_features (output_layer m))"

text \<open>The sum of \<open>0.5 * (mu / sigma)\<^sup>2\<close> over the elements of a parameter pair.\<close>

definition half_sq :: "tensor \<Rightarrow> tensor \<Rightarrow> real" where
  "half_sq mu log_sigma =
     (\<Sum>(m, s)\<leftarrow>zip (data mu) (data log_sigma). 0.5 * (m / exp s)\<^sup>2)"

text \<open>
  The divergence of one univariate normal distribution from another in its textbook
  closed form, and the density of a normal distribution.
\<close>

definition gauss_kl :: "real \<Rightarrow> real \<Rightarrow> real \<Rightarrow> real \<Rightarrow> real" where
  "gauss_kl m1 s1 m2 s2 = ln (s2 / s1) + (s1\<^sup>2 + (m1 - m2)\<^sup>2) / (2 * s2\<^sup>2) - 1 / 2"

definition normal_pdf :: "real \<Rightarrow> real \<Rightarrow> real \<Rightarrow> real" where
  "normal_pdf m s x = exp (- (x - m)\<^sup>2 / (2 * s\<^sup>2)) / (s * sqrt (2 * pi))"

text \<open>
  The forward pass in the words of the specification: every hidden layer is a stage
  that applies the layer and then \<open>max 0\<close> to each element; the output layer is a
  stage without the nonlinearity; the stages run in sequence.
\<close>

definition rectify :: "tensor \<Rightarrow> tensor" where
  "rectify t = t\<lparr>data := map (\<lambda>v. max 0 v) (data t)\<rparr>"

definition hidden_stage ::
  "BnnLayer \<Rightarrow> (error + tensor) \<times> rng \<Rightarrow> (error + tensor) \<times> rng" where
  "hidden_stage l s =
     (case s of
        (Inl e, g) \<Rightarrow> (Inl e, g)
      | (Inr x, g) \<Rightarrow> (case BnnLayer_forward l x g of (r, g') \<Rightarrow> (map_sum id rectify r, g')))"

definition output_stage ::
  "BnnLayer \<Rightarrow> (error + tensor) \<times> rng \<Rightarrow> (error + tensor) \<times> rng" where
  "output_stage l s =
     (case s of
        (Inl e, g) \<Rightarrow> (Inl e, g)
      | (Inr x, g) \<Rightarrow> BnnLayer_forward l x g)"

definition spec_forward :: "BayesianModel \<Rightarrow> tensor \<Rightarrow> rng \<Rightarrow> (error + tensor) \<times> rng" where
  "spec_forward m x g =
     output_stage (output_layer m) (foldl (\<lambda>s l. hidden_stage l s) (Inr x, g) (layers m))"

text \<open>A generator whose every draw is 0, and one whose every draw is 1.\<close>

definition zero_rng :: rng where
  "zero_rng = (\<lambda>_. 0)"

definition one_rng :: rng where
  "one_rng = (\<lambda>_. 1)"

text \<open>
  Example objects: a layer of one input and one output with means 2 and 3, the same
  layer with means 0, and a network of two hidden layers made of them.
\<close>

definition ex_layer :: BnnLayer where
  "ex_layer = \<lparr>in_features = 1, out_features = 1,
               weight_mu = \<lparr>shape = [1, 1], data = [2]\<rparr>,
               weight_std = \<lparr>shape = [1, 1], data = [0]\<rparr>,
               bias_mu = \<lparr>shape = [1], data = [3]\<rparr>,
               bias_std = \<lparr>shape = [1], data = [0]\<rparr>\<rparr>"

definition ex_layer0 :: BnnLayer where
  "ex_layer0 = \<lparr>in_features = 1, out_features = 1,
                weight_mu = \<lparr>shape = [1, 1], data = [0]\<rparr>,
                weight_std = \<lparr>shape = [1, 1], data = [0]\<rparr>,
                bias_mu = \<lparr>shape = [1], data = [0]\<rparr>,
                bias_std = \<lparr>shape = [1], data = [0]\<rparr>\<rparr>"

definition ex_model :: BayesianModel where
  "ex_model = \<lparr>layers = [ex_layer, ex_layer0], output_layer = ex_layer\<rparr>"

text \<open>
  A generator whose draws are 0, 1, 2, ..., so that consumed draws are visible in the
  generator that is left, and the layer \<open>BnnLayer(2, 1)\<close> built from \<open>one_rng\<close>.
\<close>

definition count_rng :: rng where
  "count_rng = (\<lambda>i. real i)"

definition ex_fresh :: BnnLayer where
  "ex_fresh = \<lparr>in_features = 2, out_features = 1,
               weight_mu = \<lparr>shape = [1, 2], data = [1, 1]\<rparr>,
               weight_std = \<lparr>shape = [1, 2], data = [- 5, - 5]\<rparr>,
               bias_mu = \<lparr>shape = [1], data = [0]\<rparr>,
               bias_std = \<lparr>shape = [1], data = [- 5]\<rparr>\<rparr>"

text \<open>
  The forward pass of a layer in the words of the specification:
  \<open>x @ (mu_w + exp log_sigma_w * eps_w)\<^sup>T + (mu_b + exp log_sigma_b * eps_b)\<close>, where
  \<open>eps_w\<close> are the next \<open>out * in\<close> draws of the generator and \<open>eps_b\<close> the \<open>out\<close>
  draws after them. \<open>affine_elem l x g r j\<close> is the element of row \<open>r\<close> and column \<open>j\<close>.
\<close>

definition layer_draws :: "BnnLayer \<Rightarrow> nat" where
  "layer_draws l = nat (out_features l) * nat (in_features l) + nat (out_features l)"

definition affine_elem :: "BnnLayer \<Rightarrow> tensor \<Rightarrow> rng \<Rightarrow> nat \<Rightarrow> nat \<Rightarrow> real" where
  "affine_elem l x g r j =
     (let n_in = nat (in_features l); n_out = nat (out_features l)
      in (\<Sum>k<n_in. data x ! (r * n_in + k) *
                      (data (weight_mu l) ! (j * n_in + k)
                       + exp (data (weight_std l) ! (j * n_in + k)) * g (j * n_in + k)))
         + (data (bias_mu l) ! j + exp (data (bias_std l) ! j) * g (n_out * n_in + j)))"

definition spec_layer_forward :: "BnnLayer \<Rightarrow> tensor \<Rightarrow> rng \<Rightarrow> tensor" where
  "spec_layer_forward l x g =
     \<lparr>shape = butlast (shape x) @ [nat (out_features l)],
      data = concat (map (\<lambda>r. map (\<lambda>j. affine_elem l x g r j) [0..<nat (out_features l)])
                         [0..<prod_list (butlast (shape x))])\<rparr>"

text \<open>The generator after \<open>n\<close> draws have been consumed.\<close>

definition advance :: "nat \<Rightarrow> rng \<Rightarrow> rng" where
  "advance n g = (\<lambda>i. g (n + i))"

text \<open>The weight and the bias a forward pass samples from the generator \<open>g\<close>.\<close>

definition sampled_weight :: "BnnLayer \<Rightarrow> rng \<Rightarrow> tensor" where
  "sampled_weight l g =
     \<lparr>shape = [nat (out_features l), nat (in_features l)],
      data = map (\<lambda>k. data (weight_mu l) ! k + exp (data (weight_std l) ! k) * g k)
                 [0..<nat (out_features l) * nat (in_features l)]\<rparr>"

definition sampled_bias :: "BnnLayer \<Rightarrow> rng \<Rightarrow> tensor" where
  "sampled_bias l g =
     \<lparr>shape = [nat (out_features l)],
      data = map (\<lambda>j. data (bias_mu l) ! j
                       + exp (data (bias_std l) ! j) * g (nat (out_features l) * nat (in_features l) + j))
                 [0..<nat (out_features l)]\<rparr>"

text \<open>The number of draws one forward pass of the network consumes.\<close>

definition model_draws :: "BayesianModel \<Rightarrow> nat" where
  "model_draws m = sum_list (map layer_draws (all_layers m))"

text \<open>
  More example objects: inputs of one row and of two rows, a generator that agrees
  with \<open>zero_rng\<close> on its first two draws only, and a network of the hidden layer
  \<open>2 x + 3\<close> and the output layer \<open>- x\<close> (all \<open>log_sigma\<close> are 0).
\<close>

definition ex_x :: tensor where
  "ex_x = \<lparr>shape = [1, 1], data = [1]\<rparr>"

definition ex_x2 :: tensor where
  "ex_x2 = \<lparr>shape = [2, 1], data = [1, - 2]\<rparr>"

definition late_rng :: rng where
  "late_rng = (\<lambda>i. if i < 2 then 0 else 1)"

definition ex_out :: BnnLayer where
  "ex_out = \<lparr>in_features = 1, out_features = 1,
             weight_mu = \<lparr>shape = [1, 1], data = [- 1]\<rparr>,
             weight_std = \<lparr>shape = [1, 1], data = [0]\<rparr>,
             bias_mu = \<lparr>shape = [1], data = [0]\<rparr>,
             bias_std = \<lparr>shape = [1], data = [0]\<rparr>\<rparr>"

definition ex_model2 :: BayesianModel where
  "ex_model2 = \<lparr>layers = [ex_layer], output_layer = ex_out\<rparr>"

text \<open>
  The elementwise mean of a list of tensors of one shape, as the specification has it
  for the Monte-Carlo estimate \<open>y_hat\<close>.
\<close>

definition elementwise_mean :: "tensor list \<Rightarrow> tensor" where
  "elementwise_mean ts =
     \<lparr>shape = shape (hd ts),
      data = map (\<lambda>j. (\<Sum>t\<leftarrow>ts. data t ! j) / real (length ts))
                 [0..<prod_list (shape (hd ts))]\<rparr>"

text \<open>A target for \<open>ex_x2\<close> with its two rows, and one with a single row.\<close>

definition ex_y2 :: tensor where
  "ex_y2 = \<lparr>shape = [2, 1], data = [- 5, 0]\<rparr>"

definition ex_y1 :: tensor where
  "ex_y1 = \<lparr>shape = [1, 1], data = [0]\<rparr>"

section \<open>The divergence in floating-point arithmetic\<close>

text \<open>
  The tensors of the program hold 32-bit floats, and \<open>kl_divergence\<close> subtracts nearly
  equal numbers, so its value depends on the rounding. Here the arithmetic is a
  parameter: a format is its rounding function and its range of finite values. An
  operation returns the rounded exact result, or \<open>None\<close> (an infinity or NaN) when the
  rounded result is outside the range or an operand is not finite. \<open>exp\<close> and \<open>log\<close>
  are taken as correctly rounded. The format \<open>exact_format\<close> does not round: it is the
  arithmetic of the definitions above.
\<close>

record fformat =
  rnd :: "real \<Rightarrow> real"
  in_range :: "real \<Rightarrow> bool"

definition exact_format :: fformat where
  "exact_format = \<lparr>rnd = (\<lambda>v. v), in_range = (\<lambda>_. True)\<rparr>"

text \<open>Rounding to the nearest integer, a tie to the even one.\<close>

definition round_even :: "real \<Rightarrow> int" where
  "round_even r =
     (let f = \<lfloor>r\<rfloor>
      in if r - of_int f < 1 / 2 then f
         else if 1 / 2 < r - of_int f then f + 1
         else if even f then f else f + 1)"

text \<open>
  IEEE binary32, round to nearest even: 24 significant bits, the least exponent of a
  normal number is \<open>-126\<close> (below it the spacing stays \<open>2 powr -149\<close>), the largest finite
  number is \<open>(2 - 2 powr -23) * 2 powr 127\<close>.
\<close>

definition round32 :: "real \<Rightarrow> real" where
  "round32 x =
     (if x = 0 then 0
      else (let q = max \<lfloor>log 2 \<bar>x\<bar>\<rfloor> (- 126) - 23
            in of_int (round_even (x / 2 powr of_int q)) * 2 powr of_int q))"

definition float32 :: fformat where
  "float32 = \<lparr>rnd = round32, in_range = (\<lambda>v. \<bar>v\<bar> \<le> (2 - 1 / 2 ^ 23) * 2 ^ 127)\<rparr>"

definition fl :: "fformat \<Rightarrow> real \<Rightarrow> real option" where
  "fl F v = (if in_range F (rnd F v) then Some (rnd F v) else None)"

definition fop :: "fformat \<Rightarrow> (real \<Rightarrow> real \<Rightarrow> real) \<Rightarrow> real option \<Rightarrow> real option \<Rightarrow> real option" where
  "fop F f a b =
     (case a of
        None \<Rightarrow> None
      | Some x \<Rightarrow> (case b of None \<Rightarrow> None | Some y \<Rightarrow> fl F (f x y)))"

definition fdiv :: "fformat \<Rightarrow> real option \<Rightarrow> real option \<Rightarrow> real option" where
  "fdiv F a b =
     (case a of
        None \<Rightarrow> None
      | Some x \<Rightarrow> (case b of None \<Rightarrow> None | Some y \<Rightarrow> if y = 0 then None else fl F (x / y)))"

definition fexp :: "fformat \<Rightarrow> real \<Rightarrow> real option" where
  "fexp F v = fl F (exp v)"

definition flog :: "fformat \<Rightarrow> real option \<Rightarrow> real option" where
  "flog F a = (case a of None \<Rightarrow> None | Some x \<Rightarrow> if 0 < x then fl F (ln x) else None)"

text \<open>
  The closed form of the library once more, every operation rounded:
  \<^verbatim>\<open>var_ratio = (p.scale / q.scale).pow(2); t1 = ((p.loc - q.loc) / q.scale).pow(2);
  0.5 * (var_ratio + t1 - 1 - var_ratio.log())\<close>.
\<close>

definition kl_elem_fl ::
  "fformat \<Rightarrow> real option \<Rightarrow> real option \<Rightarrow> real option \<Rightarrow> real option \<Rightarrow> real option" where
  "kl_elem_fl F pm ps qm qs =
     (let r = fdiv F ps qs;
          var_ratio = fop F (*) r r;
          d = fdiv F (fop F (-) pm qm) qs;
          t1 = fop F (*) d d
      in fop F (*) (Some 0.5)
           (fop F (-) (fop F (-) (fop F (+) var_ratio t1) (Some 1)) (flog F var_ratio)))"

text \<open>\<^verbatim>\<open>.sum()\<close>, the elements added in order.\<close>

definition fsum :: "fformat \<Rightarrow> real option list \<Rightarrow> real option" where
  "fsum F xs = foldl (fop F (+)) (Some 0) xs"

text \<open>
  The validation of \<open>Normal\<close>: every scale is greater than 0. An infinite scale
  (\<open>None\<close> from \<open>fexp\<close>) passes, the scale 0 of an underflow does not.
\<close>

definition scale_ok :: "real option \<Rightarrow> bool" where
  "scale_ok s = (case s of None \<Rightarrow> True | Some v \<Rightarrow> 0 < v)"

text \<open>
  \<open>kl_pair\<close> and \<open>BnnLayer.kl_divergence\<close> in the arithmetic of the format: the two
  distributions are built from \<open>mu\<close>, its zeros and \<open>exp std\<close>, broadcast to one shape
  and validated; the closed form is evaluated on every element and summed.
\<close>

definition kl_pair_fl :: "fformat \<Rightarrow> tensor \<Rightarrow> tensor \<Rightarrow> error + real option" where
  "kl_pair_fl F mu std =
     (case broadcast_shapes (shape mu) (shape std) of
        None \<Rightarrow> Inl RuntimeError
      | Some bs \<Rightarrow>
          (let scales = map (fexp F) (expand std bs);
               prior_loc = map Some (expand (zeros_like mu) bs);
               posterior_loc = map Some (expand mu bs)
           in if list_all scale_ok scales
              then Inr (fsum F (map (\<lambda>((pm, qm), s). kl_elem_fl F pm s qm s)
                                    (zip (zip posterior_loc prior_loc) scales)))
              else Inl ValueError))"

definition BnnLayer_kl_divergence_fl :: "fformat \<Rightarrow> BnnLayer \<Rightarrow> error + real option" where
  "BnnLayer_kl_divergence_fl F l =
     (case kl_pair_fl F (weight_mu l) (weight_std l) of
        Inl e \<Rightarrow> Inl e
      | Inr kl_weight \<Rightarrow>
          (case kl_pair_fl F (bias_mu l) (bias_std l) of
             Inl e \<Rightarrow> Inl e
           | Inr kl_bias \<Rightarrow> Inr (fop F (+) kl_weight kl_bias)))"

text \<open>The elements \<open>kl_pair_fl\<close> sums when \<open>mu\<close> and \<open>std\<close> have one shape.\<close>

definition elems_fl :: "fformat \<Rightarrow> tensor \<Rightarrow> tensor \<Rightarrow> real option list" where
  "elems_fl F mu std =
     map (\<lambda>(m, s). kl_elem_fl F (Some m) (fexp F s) (Some 0) (fexp F s)) (zip (data mu) (data std))"

text \<open>
  What the proofs below use of a format: 0 and 1 are finite numbers of the format,
  and rounding keeps a number that is at least 0, or at least 1, so. The parameters
  of a layer are numbers of the format and \<open>exp\<close> of each \<open>log_sigma\<close> is a positive
  finite number.
\<close>

definition rounding :: "fformat \<Rightarrow> bool" where
  "rounding F \<longleftrightarrow>
     rnd F 0 = 0 \<and> rnd F 1 = 1 \<and> in_range F 0 \<and> in_range F 1 \<and>
     (\<forall>v. 0 \<le> v \<longrightarrow> 0 \<le> rnd F v) \<and> (\<forall>v. 1 \<le> v \<longrightarrow> 1 \<le> rnd F v)"

definition finite_scales :: "fformat \<Rightarrow> BnnLayer \<Rightarrow> bool" where
  "finite_scales F l \<longleftrightarrow>
     list_all (\<lambda>s. case fexp F s of None \<Rightarrow> False | Some v \<Rightarrow> 0 < v)
              (data (weight_std l) @ data (bias_std l))"

text \<open>
  A layer of one input and one output whose weight mean is \<open>2 powr -14\<close> and whose
  other parameters are 0, one whose bias mean is \<open>2 powr -14\<close>, and one whose
  \<open>log_sigma\<close> of the weight is \<open>-200\<close>.
\<close>

definition ex_small :: BnnLayer where
  "ex_small = \<lparr>in_features = 1, out_features = 1,
               weight_mu = \<lparr>shape = [1, 1], data = [1 / 16384]\<rparr>,
               weight_std = \<lparr>shape = [1, 1], data = [0]\<rparr>,
               bias_mu = \<lparr>shape = [1], data = [0]\<rparr>,
               bias_std = \<lparr>shape = [1], data = [0]\<rparr>\<rparr>"

definition ex_small_bias :: BnnLayer where
  "ex_small_bias = \<lparr>in_features = 1, out_features = 1,
               weight_mu = \<lparr>shape = [1, 1], data = [0]\<rparr>,
               weight_std = \<lparr>shape = [1, 1], data = [0]\<rparr>,
               bias_mu = \<lparr>shape = [1], data = [1 / 16384]\<rparr>,
               bias_std = \<lparr>shape = [1], data = [0]\<rparr>\<rparr>"

definition ex_underflow :: BnnLayer where
  "ex_underflow = \<lparr>in_features = 1, out_features = 1,
               weight_mu = \<lparr>shape = [1, 1], data = [0]\<rparr>,
               weight_std = \<lparr>shape = [1, 1], data = [- 200]\<rparr>,
               bias_mu = \<lparr>shape = [1], data = [0]\<rparr>,
               bias_std = \<lparr>shape = [1], data = [0]\<rparr>\<rparr>"

section \<open>Properties\<close>

subsection \<open>Broadcasting a tensor to its own shape\<close>
lemma concat_chunks_take:
  "concat (map (\<lambda>i. take p (drop (i * p) xs)) [0..<d]) = take (d * p) xs"
proof (induction d)
  case 0
  show ?case by simp
next
  case (Suc d)
  have "take (d * p + p) xs = take (d * p) xs @ take p (drop (d * p) xs)"
    by (rule take_add)
  with Suc show ?case by (simp add: add.commute)
qed

lemma expand_data_same:
  "length xs = prod_list s \<Longrightarrow> expand_data s s xs = xs"
proof (induction s arbitrary: xs)
  case Nil
  then show ?case by simp
next
  case (Cons d ds)
  have eq: "map (\<lambda>i. expand_data ds ds (take (prod_list ds) (drop (i * prod_list ds) xs))) [0..<d]
      = map (\<lambda>i. take (prod_list ds) (drop (i * prod_list ds) xs)) [0..<d]"
  proof (rule map_cong[OF refl])
    fix i assume "i \<in> set [0..<d]"
    then have "i < d" by simp
    then have "Suc i \<le> d" by simp
    then have "Suc i * prod_list ds \<le> d * prod_list ds" by (rule mult_le_mono1)
    then have "length (take (prod_list ds) (drop (i * prod_list ds) xs)) = prod_list ds"
      using Cons.prems by simp
    then show "expand_data ds ds (take (prod_list ds) (drop (i * prod_list ds) xs))
             = take (prod_list ds) (drop (i * prod_list ds) xs)"
      by (rule Cons.IH)
  qed
  have "expand_data (d # ds) (d # ds) xs
      = concat (map (\<lambda>i. expand_data ds ds (take (prod_list ds) (drop (i * prod_list ds) xs))) [0..<d])"
    by simp
  also have "\<dots> = take (d * prod_list ds) xs"
    by (simp only: eq concat_chunks_take)
  finally show ?case using Cons.prems by simp
qed

lemma broadcast_rev_same: "broadcast_rev s s = Some s"
  by (induction s) simp_all

lemma broadcast_shapes_same: "broadcast_shapes s s = Some s"
  by (simp add: broadcast_shapes_def broadcast_rev_same)

lemma expand_same: "wf_tensor t \<Longrightarrow> expand t (shape t) = data t"
  by (simp add: expand_def wf_tensor_def expand_data_same)

subsection \<open>The divergence of a layer\<close>

lemma Normal_same:
  assumes "wf_tensor l" "wf_tensor s" "shape l = shape s" "list_all (\<lambda>v. 0 < v) (data s)"
  shows "Normal l s = Inr \<lparr>loc = l, scale = s\<rparr>"
proof -
  have "expand l (shape s) = data l" using assms expand_same[of l] by simp
  moreover have "expand s (shape s) = data s" using assms expand_same[of s] by simp
  ultimately show ?thesis
    using assms by (simp add: Normal_def broadcast_shapes_same)
qed

lemma kl_elem_shared: "kl_elem m (exp s) 0 (exp s) = 0.5 * (m / exp s)\<^sup>2"
  by (simp add: kl_elem_def)

lemma kl_zip:
  "map (\<lambda>((pm, ps), (qm, qs)). kl_elem pm ps qm qs)
       (zip (zip ms (map exp ss)) (zip (map (\<lambda>_. 0) ms) (map exp ss)))
   = map (\<lambda>(m, s). 0.5 * (m / exp s)\<^sup>2) (zip ms ss)"
proof (induction ms arbitrary: ss)
  case Nil
  show ?case by simp
next
  case (Cons m ms)
  show ?case
  proof (cases ss)
    case Nil
    then show ?thesis by simp
  next
    case (Cons s ss')
    then show ?thesis using Cons.IH[of ss'] by (simp add: kl_elem_shared)
  qed
qed

lemma list_all_exp: "list_all (\<lambda>v. 0 < v) (map exp (xs :: real list))"
  by (simp add: list_all_iff)

lemma kl_pair_value:
  assumes "wf_tensor mu" "wf_tensor std" "shape mu = shape std"
  shows "kl_pair mu std = Inr (half_sq mu std)"
proof -
  have wfe: "wf_tensor (torch_exp std)" using assms by (simp add: wf_tensor_def torch_exp_def)
  have wfz: "wf_tensor (zeros_like mu)" using assms by (simp add: wf_tensor_def zeros_like_def)
  have pos: "list_all (\<lambda>v. 0 < v) (data (torch_exp std))"
    by (simp add: torch_exp_def list_all_exp)
  have prior: "Normal (zeros_like mu) (torch_exp std)
             = Inr \<lparr>loc = zeros_like mu, scale = torch_exp std\<rparr>"
    using wfz wfe pos assms by (intro Normal_same) (simp_all add: zeros_like_def torch_exp_def)
  have post: "Normal mu (torch_exp std) = Inr \<lparr>loc = mu, scale = torch_exp std\<rparr>"
    using assms wfe pos by (intro Normal_same) (simp_all add: torch_exp_def)
  show ?thesis
    unfolding kl_pair_def prior post
    by (simp add: kl_normal_normal_def zeros_like_def torch_exp_def tensor_sum_def half_sq_def kl_zip)
qed

lemma BnnLayer_kl_value:
  assumes "layer_inv l"
  shows "BnnLayer_kl_divergence l
       = Inr (half_sq (weight_mu l) (weight_std l) + half_sq (bias_mu l) (bias_std l))"
proof -
  have "kl_pair (weight_mu l) (weight_std l) = Inr (half_sq (weight_mu l) (weight_std l))"
    using assms by (intro kl_pair_value) (simp_all add: layer_inv_def)
  moreover have "kl_pair (bias_mu l) (bias_std l) = Inr (half_sq (bias_mu l) (bias_std l))"
    using assms by (intro kl_pair_value) (simp_all add: layer_inv_def)
  ultimately show ?thesis by (simp add: BnnLayer_kl_divergence_def)
qed

lemma gauss_kl_shared: "0 < s \<Longrightarrow> gauss_kl m s 0 s = 0.5 * (m / s)\<^sup>2"
  by (simp add: gauss_kl_def power_divide add_divide_distrib)


lemma half_sq_zero:
  assumes "\<forall>m\<in>set (data mu). m = 0"
  shows "half_sq mu ls = 0"
proof -
  have "\<forall>p\<in>set (zip (data mu) (data ls)). fst p = 0"
    using assms by (auto dest: set_zip_leftD)
  then have eq: "map (\<lambda>(m, s). 0.5 * (m / exp s)\<^sup>2) (zip (data mu) (data ls))
           = map (\<lambda>_. 0) (zip (data mu) (data ls))"
    by (intro map_cong) auto
  show ?thesis unfolding half_sq_def by (subst eq) simp
qed




lemma kl_loop_sum:
  "map BnnLayer_kl_divergence ls = map Inr ks \<Longrightarrow> kl_loop ls acc = Inr (acc + sum_list ks)"
proof (induction ls arbitrary: ks acc)
  case Nil
  then show ?case by simp
next
  case (Cons l ls)
  then obtain k ks' where ks: "ks = k # ks'" by (cases ks) auto
  with Cons.prems have "BnnLayer_kl_divergence l = Inr k"
    and "map BnnLayer_kl_divergence ls = map Inr ks'" by simp_all
  then show ?case using Cons.IH[of ks' "acc + k"] ks by (simp add: add.assoc)
qed

lemma layers_kl_defined:
  assumes "list_all layer_inv ls"
  shows "map BnnLayer_kl_divergence ls
       = map Inr (map (\<lambda>l. half_sq (weight_mu l) (weight_std l) + half_sq (bias_mu l) (bias_std l)) ls)"
  using assms by (induction ls) (simp_all add: BnnLayer_kl_value)

lemma model_inv_parts:
  assumes "model_inv m"
  shows "list_all layer_inv (layers m)" and "layer_inv (output_layer m)"
  using assms by (simp_all add: model_inv_def all_layers_def)

lemma BayesianModel_kl_value:
  assumes "map BnnLayer_kl_divergence (layers m) = map Inr ks"
      and "BnnLayer_kl_divergence (output_layer m) = Inr k"
  shows "BayesianModel_kl_divergence m = Inr (sum_list ks + k)"
  using kl_loop_sum[OF assms(1), of 0] assms(2) by (simp add: BayesianModel_kl_divergence_def)

text \<open>
  Claim C6. For every network, the divergence of the network is the sum of the
  divergences of its hidden layers plus the divergence of its output layer.
\<close>

theorem total_kl_is_sum:
  assumes "model_inv m"
  shows "\<exists>ks k. map BnnLayer_kl_divergence (layers m) = map Inr ks \<and>
                BnnLayer_kl_divergence (output_layer m) = Inr k \<and>
                BayesianModel_kl_divergence m = Inr (sum_list ks + k)"
proof -
  let ?kl = "\<lambda>l. half_sq (weight_mu l) (weight_std l) + half_sq (bias_mu l) (bias_std l)"
  have hid: "map BnnLayer_kl_divergence (layers m) = map Inr (map ?kl (layers m))"
    by (rule layers_kl_defined[OF model_inv_parts(1)[OF assms]])
  have out: "BnnLayer_kl_divergence (output_layer m) = Inr (?kl (output_layer m))"
    by (rule BnnLayer_kl_value[OF model_inv_parts(2)[OF assms]])
  show ?thesis using hid out BayesianModel_kl_value[OF hid out] by blast
qed

theorem total_kl_is_sum_witness:
  "model_inv ex_model \<and>
   map BnnLayer_kl_divergence (layers ex_model) = [Inr (13 / 2), Inr 0] \<and>
   BnnLayer_kl_divergence (output_layer ex_model) = Inr (13 / 2) \<and>
   BayesianModel_kl_divergence ex_model = Inr 13"
proof -
  have inv: "model_inv ex_model"
    by (simp add: model_inv_def all_layers_def ex_model_def layer_inv_def
        ex_layer_def ex_layer0_def wf_tensor_def)
  have a: "BnnLayer_kl_divergence ex_layer = Inr (13 / 2)"
    using BnnLayer_kl_value[of ex_layer] inv
    by (simp add: model_inv_def all_layers_def ex_model_def half_sq_def ex_layer_def)
  have b: "BnnLayer_kl_divergence ex_layer0 = Inr 0"
    using BnnLayer_kl_value[of ex_layer0] inv
    by (simp add: model_inv_def all_layers_def ex_model_def half_sq_def ex_layer0_def)
  from total_kl_is_sum[OF inv] obtain ks k where
    "map BnnLayer_kl_divergence (layers ex_model) = map Inr ks"
    "BnnLayer_kl_divergence (output_layer ex_model) = Inr k"
    "BayesianModel_kl_divergence ex_model = Inr (sum_list ks + k)" by blast
  then show ?thesis using inv a b by (auto simp: ex_model_def)
qed

subsection \<open>Construction\<close>


lemma exp_one_bounds: "(27182 / 10000 :: real) < exp 1 \<and> exp (1::real) < 27184 / 10000"
proof -
  obtain t :: real where t: "\<bar>t\<bar> \<le> \<bar>1\<bar>"
    and e: "exp (1::real) = (\<Sum>m<8. (1 ^ m) / fact m) + (exp t / fact 8) * 1 ^ 8"
    using Maclaurin_exp_le[of 1 8] by blast
  have s: "(\<Sum>m<8. (1 ^ m) / fact m :: real) = 685 / 252"
    by (simp add: lessThan_nat_numeral lessThan_Suc fact_numeral)
  have "t \<le> 1" using t by simp
  then have "exp t \<le> exp 1" by simp
  also have "\<dots> \<le> 3" by (rule exp_le)
  finally have up: "exp t \<le> 3" .
  have lo: "0 < exp t" by simp
  have f: "(fact 8 :: real) = 40320" by (simp add: fact_numeral)
  have "exp (1::real) = 685 / 252 + exp t / 40320" using e s f by simp
  then show ?thesis using up lo by linarith
qed

lemma exp_minus_five_approx: "\<bar>exp (- 5 :: real) - 0.00674\<bar> < 0.00001"
proof -
  have e5: "exp (5::real) = exp 1 ^ 5"
    using exp_of_nat_mult[of 5 "1::real"] by simp
  have lo1: "(27182 / 10000 :: real) ^ 5 < exp 1 ^ 5"
    using exp_one_bounds by (intro power_strict_mono) simp_all
  have hi1: "exp (1::real) ^ 5 < (27184 / 10000) ^ 5"
    using exp_one_bounds by (intro power_strict_mono) simp_all
  have c1: "(14839 / 100 :: real) < (27182 / 10000) ^ 5"
    by (simp add: power_divide)
  have c2: "(27184 / 10000 :: real) ^ 5 < 14845 / 100"
    by (simp add: power_divide)
  have lo: "(14839 / 100 :: real) < exp 5"
    unfolding e5 using c1 lo1 by (rule less_trans)
  have hi: "exp (5 :: real) < 14845 / 100"
    unfolding e5 using hi1 c2 by (rule less_trans)
  have m: "exp (- 5 :: real) = 1 / exp 5" by (simp add: exp_minus inverse_eq_divide)
  have "1 / exp (5::real) < 1 / (14839 / 100)"
    using lo by (intro divide_strict_left_mono) simp_all
  moreover have "1 / (14845 / 100) < 1 / exp (5::real)"
    using hi by (intro divide_strict_left_mono) simp_all
  ultimately show ?thesis unfolding m by simp
qed

lemma torch_Tensor_negative:
  "list_ex (\<lambda>d. d < 0) dims \<Longrightarrow> torch_Tensor dims = Inl RuntimeError"
  by (simp add: torch_Tensor_def)

lemma torch_Tensor_ok:
  "\<not> list_ex (\<lambda>d. d < 0) dims \<Longrightarrow>
   torch_Tensor dims = Inr \<lparr>shape = map nat dims, data = replicate (prod_list (map nat dims)) 0\<rparr>"
  by (simp add: torch_Tensor_def)

lemma BnnLayer_init_negative:
  assumes "n_in < 0 \<or> n_out < 0"
  shows "BnnLayer_init n_in n_out g = (Inl RuntimeError, g)"
proof -
  have "torch_Tensor [n_out, n_in] = Inl RuntimeError"
    using assms by (intro torch_Tensor_negative) auto
  then show ?thesis by (simp add: BnnLayer_init_def)
qed

text \<open>The layer a successful construction returns, and the generator it leaves.\<close>

lemma BnnLayer_init_ok:
  assumes "0 \<le> n_in" "0 \<le> n_out"
  shows "BnnLayer_init n_in n_out g =
     (Inr \<lparr>in_features = n_in, out_features = n_out,
           weight_mu = \<lparr>shape = [nat n_out, nat n_in],
                        data = (if n_in = 0 \<or> n_out = 0 then replicate (nat n_out * nat n_in) 0
                                else map (\<lambda>e. 0 + sqrt 2 / sqrt (real (nat n_in)) * e)
                                         (map g [0..<nat n_out * nat n_in]))\<rparr>,
           weight_std = \<lparr>shape = [nat n_out, nat n_in],
                         data = replicate (nat n_out * nat n_in) (- 5)\<rparr>,
           bias_mu = \<lparr>shape = [nat n_out], data = replicate (nat n_out) 0\<rparr>,
           bias_std = \<lparr>shape = [nat n_out], data = replicate (nat n_out) (- 5)\<rparr>\<rparr>,
      if n_in = 0 \<or> n_out = 0 then g else (\<lambda>i. g (nat n_out * nat n_in + i)))"
proof -
  have t2: "torch_Tensor [n_out, n_in]
          = Inr \<lparr>shape = [nat n_out, nat n_in], data = replicate (nat n_out * nat n_in) 0\<rparr>"
    using assms by (simp add: torch_Tensor_def)
  have t1: "torch_Tensor [n_out] = Inr \<lparr>shape = [nat n_out], data = replicate (nat n_out) 0\<rparr>"
    using assms by (simp add: torch_Tensor_def)
  have z: "(nat n_out = 0 \<or> nat n_in = 0) = (n_in = 0 \<or> n_out = 0)"
    using assms by auto
  show ?thesis
    unfolding BnnLayer_init_def t2 t1
    using z
    by (auto simp: reset_parameters_def init_kaiming_normal_def init_constant_def
        init_zeros_def randn_def map_replicate_const)
qed

lemma BnnLayer_init_total:
  "BnnLayer_init n_in n_out g = (Inl RuntimeError, g) \<and> (n_in < 0 \<or> n_out < 0)
   \<or> (\<exists>l g'. BnnLayer_init n_in n_out g = (Inr l, g')) \<and> 0 \<le> n_in \<and> 0 \<le> n_out"
proof (cases "n_in < 0 \<or> n_out < 0")
  case True
  then show ?thesis using BnnLayer_init_negative[OF True] by simp
next
  case False
  then have "0 \<le> n_in" "0 \<le> n_out" by simp_all
  then show ?thesis using BnnLayer_init_ok[of n_in n_out g] by simp
qed

lemma BnnLayer_init_inv:
  assumes "BnnLayer_init n_in n_out g = (Inr l, g')"
  shows "layer_inv l \<and> in_features l = n_in \<and> out_features l = n_out"
proof -
  have nn: "0 \<le> n_in" "0 \<le> n_out"
    using BnnLayer_init_total[of n_in n_out g] assms by auto
  show ?thesis
    using assms nn unfolding BnnLayer_init_ok[OF nn]
    by (auto simp: layer_inv_def wf_tensor_def)
qed

lemma build_layers_ok:
  assumes "0 \<le> hidden_size" "0 \<le> input_size \<or> 0 \<notin> set idx"
  shows "\<exists>ls g'. build_layers input_size hidden_size idx g = (Inr ls, g') \<and>
           length ls = length idx \<and> list_all layer_inv ls \<and>
           (\<forall>k<length idx. out_features (ls ! k) = hidden_size \<and>
               in_features (ls ! k) = (if idx ! k = 0 then input_size else hidden_size))"
  using assms(2)
proof (induction idx arbitrary: g)
  case Nil
  show ?case by simp
next
  case (Cons i idx)
  let ?n_in = "if i = 0 then input_size else hidden_size"
  have nn: "0 \<le> ?n_in" using Cons.prems assms(1) by auto
  obtain l g1 where l: "BnnLayer_init ?n_in hidden_size g = (Inr l, g1)"
    using BnnLayer_init_ok[OF nn assms(1), of g] by blast
  have linv: "layer_inv l" "in_features l = ?n_in" "out_features l = hidden_size"
    using BnnLayer_init_inv[OF l] by simp_all
  have "0 \<le> input_size \<or> 0 \<notin> set idx" using Cons.prems by auto
  from Cons.IH[OF this, of g1] obtain ls g2 where
    ls: "build_layers input_size hidden_size idx g1 = (Inr ls, g2)"
    and len: "length ls = length idx" and inv: "list_all layer_inv ls"
    and feat: "\<forall>k<length idx. out_features (ls ! k) = hidden_size \<and>
               in_features (ls ! k) = (if idx ! k = 0 then input_size else hidden_size)"
    by blast
  have run: "build_layers input_size hidden_size (i # idx) g = (Inr (l # ls), g2)"
    using l ls by (cases "i = 0") simp_all
  have "\<forall>k<length (i # idx). out_features ((l # ls) ! k) = hidden_size \<and>
          in_features ((l # ls) ! k) = (if (i # idx) ! k = 0 then input_size else hidden_size)"
  proof (intro allI impI)
    fix k assume "k < length (i # idx)"
    then show "out_features ((l # ls) ! k) = hidden_size \<and>
          in_features ((l # ls) ! k) = (if (i # idx) ! k = 0 then input_size else hidden_size)"
      using linv feat by (cases k) auto
  qed
  then show ?case using run len inv linv(1) by simp
qed

lemma build_layers_first_fails:
  assumes "hidden_size < 0 \<or> input_size < 0"
  shows "build_layers input_size hidden_size (0 # idx) g = (Inl RuntimeError, g)"
  using BnnLayer_init_negative[of input_size hidden_size g] assms by auto

lemma chained_uniform:
  assumes "\<forall>k<length ls. out_features (ls ! k) = h"
      and "\<forall>k<length ls. 0 < k \<longrightarrow> in_features (ls ! k) = h"
  shows "chained ls"
  using assms
proof (induction ls rule: chained.induct)
  case (1 a b ls)
  have "out_features a = h" using "1.prems"(1) by (auto dest: spec[of _ 0])
  moreover have "in_features b = h" using "1.prems"(2) by (auto dest: spec[of _ 1])
  moreover have "chained (b # ls)"
  proof (rule "1.IH")
    show "\<forall>k<length (b # ls). out_features ((b # ls) ! k) = h"
      using "1.prems"(1) by (auto dest: spec[of _ "Suc k" for k])
    show "\<forall>k<length (b # ls). 0 < k \<longrightarrow> in_features ((b # ls) ! k) = h"
      using "1.prems"(2) by (auto dest: spec[of _ "Suc k" for k])
  qed
  ultimately show ?case by simp
qed simp_all

lemma chained_snoc:
  "chained ls \<Longrightarrow> (ls \<noteq> [] \<Longrightarrow> out_features (last ls) = in_features l) \<Longrightarrow>
   chained (ls @ [l])"
  by (induction ls rule: chained.induct) simp_all

text \<open>When and how the construction of a network fails, and what it returns otherwise.\<close>

lemma BayesianModel_init_fails:
  assumes "hidden_size < 0 \<or> output_size < 0 \<or> (input_size < 0 \<and> 1 \<le> num_layers)"
  shows "fst (BayesianModel_init input_size hidden_size output_size num_layers g) = Inl RuntimeError"
proof (cases "1 \<le> num_layers \<and> (hidden_size < 0 \<or> input_size < 0)")
  case True
  then have "[0..<nat num_layers] = 0 # [1..<nat num_layers]"
    by (simp add: upt_conv_Cons)
  then show ?thesis
    using True build_layers_first_fails[of hidden_size input_size "[1..<nat num_layers]" g]
    by (simp add: BayesianModel_init_def)
next
  case False
  with assms have neg: "hidden_size < 0 \<or> output_size < 0" by auto
  have pre: "0 \<le> hidden_size \<or> [0..<nat num_layers] = []" using False by auto
  obtain ls g1 where b: "build_layers input_size hidden_size [0..<nat num_layers] g = (Inr ls, g1)"
  proof (cases "[0..<nat num_layers] = []")
    case True
    then show ?thesis using that by simp
  next
    case ne: False
    then have "1 \<le> num_layers" by simp
    with False have "0 \<le> hidden_size" "0 \<le> input_size" by auto
    then show ?thesis
      using build_layers_ok[of hidden_size input_size "[0..<nat num_layers]" g] that by blast
  qed
  show ?thesis
    using b BnnLayer_init_negative[of hidden_size output_size g1] neg
    by (simp add: BayesianModel_init_def)
qed

lemma BayesianModel_init_ok:
  assumes "0 \<le> hidden_size" "0 \<le> output_size" "0 \<le> input_size \<or> num_layers < 1"
  shows "\<exists>m g'. BayesianModel_init input_size hidden_size output_size num_layers g = (Inr m, g') \<and>
           model_inv m \<and> length (layers m) = nat num_layers \<and> model_out m = nat output_size \<and>
           model_in m = (if 1 \<le> num_layers then nat input_size else nat hidden_size)"
proof -
  let ?idx = "[0..<nat num_layers]"
  have "0 \<le> input_size \<or> 0 \<notin> set ?idx" using assms(3) by auto
  from build_layers_ok[OF assms(1) this, of g] obtain ls g1 where
    b: "build_layers input_size hidden_size ?idx g = (Inr ls, g1)"
    and len: "length ls = length ?idx" and inv: "list_all layer_inv ls"
    and feat: "\<forall>k<length ?idx. out_features (ls ! k) = hidden_size \<and>
               in_features (ls ! k) = (if ?idx ! k = 0 then input_size else hidden_size)"
    by blast
  obtain out g2 where o: "BnnLayer_init hidden_size output_size g1 = (Inr out, g2)"
    using BnnLayer_init_ok[OF assms(1,2), of g1] by blast
  have oinv: "layer_inv out" "in_features out = hidden_size" "out_features out = output_size"
    using BnnLayer_init_inv[OF o] by simp_all
  let ?m = "\<lparr>layers = ls, output_layer = out\<rparr>"
  have run: "BayesianModel_init input_size hidden_size output_size num_layers g = (Inr ?m, g2)"
    using b o by (simp add: BayesianModel_init_def)
  have outs: "\<forall>k<length (ls @ [out]). out_features ((ls @ [out]) ! k) = (if k < length ls then hidden_size else output_size)"
    using feat len oinv by (auto simp: nth_append)
  have ins: "\<forall>k<length (ls @ [out]). 0 < k \<longrightarrow> in_features ((ls @ [out]) ! k) = hidden_size"
    using feat len oinv by (auto simp: nth_append)
  have ch: "chained (ls @ [out])"
  proof -
    have "chained ls"
      using feat len by (intro chained_uniform[where h = hidden_size]) auto
    moreover have "out_features (last ls) = hidden_size" if ne: "ls \<noteq> []"
    proof -
      have "length ls - 1 < length ?idx" using ne len by (cases ls) auto
      then have "out_features (ls ! (length ls - 1)) = hidden_size" using feat by blast
      then show ?thesis using ne by (simp add: last_conv_nth)
    qed
    ultimately show ?thesis using oinv(2) by (intro chained_snoc) simp_all
  qed
  have hd_in: "in_features (hd (ls @ [out])) = (if 1 \<le> num_layers then input_size else hidden_size)"
  proof (cases "1 \<le> num_layers")
    case True
    then have "ls \<noteq> []" "0 < length ?idx" using len by auto
    then show ?thesis using feat True by (auto simp: hd_conv_nth hd_append)
  next
    case False
    then have "ls = []" using len by simp
    then show ?thesis using oinv False by simp
  qed
  have "model_inv ?m" using inv oinv(1) ch by (simp add: model_inv_def all_layers_def)
  moreover have "model_in ?m = (if 1 \<le> num_layers then nat input_size else nat hidden_size)"
    using hd_in by (simp add: model_in_def all_layers_def)
  ultimately show ?thesis using run len oinv by (simp add: model_out_def)
qed

text \<open>
  Claim C9. Immediately after the construction of a layer, every element of both
  \<open>log_sigma\<close> tensors is \<open>-5\<close>, so every standard deviation \<open>exp log_sigma\<close> is
  \<open>exp (-5)\<close>, which is 0.00674 up to 0.00001; and each weight mean is a standard-normal
  draw scaled by a standard deviation whose square is \<open>2 / in_features\<close>.
\<close>

theorem init_log_sigma_and_weight_scale:
  assumes "BnnLayer_init n_in n_out g = (Inr l, g')"
  shows "data (weight_std l) = replicate (nat n_out * nat n_in) (- 5)
       \<and> data (bias_std l) = replicate (nat n_out) (- 5)
       \<and> data (torch_exp (weight_std l)) = replicate (nat n_out * nat n_in) (exp (- 5))
       \<and> data (torch_exp (bias_std l)) = replicate (nat n_out) (exp (- 5))
       \<and> \<bar>exp (- 5 :: real) - 0.00674\<bar> < 0.00001
       \<and> (0 < n_in \<and> 0 < n_out \<longrightarrow>
            data (weight_mu l)
              = map (\<lambda>k. sqrt (2 / real_of_int n_in) * g k) [0..<nat n_out * nat n_in]
            \<and> (sqrt (2 / real_of_int n_in))\<^sup>2 = 2 / real_of_int n_in
            \<and> g' = (\<lambda>i. g (nat n_out * nat n_in + i)))"
proof -
  have nn: "0 \<le> n_in" "0 \<le> n_out"
    using BnnLayer_init_total[of n_in n_out g] assms by auto
  note ok = BnnLayer_init_ok[OF nn, of g]
  have ws: "weight_std l = \<lparr>shape = [nat n_out, nat n_in],
                             data = replicate (nat n_out * nat n_in) (- 5)\<rparr>"
    and bs: "bias_std l = \<lparr>shape = [nat n_out], data = replicate (nat n_out) (- 5)\<rparr>"
    using assms unfolding ok by auto
  have approx: "\<bar>exp (- 5 :: real) - 0.00674\<bar> < 0.00001"
    by (rule exp_minus_five_approx)
  have mu: "data (weight_mu l)
              = map (\<lambda>k. sqrt (2 / real_of_int n_in) * g k) [0..<nat n_out * nat n_in]
            \<and> (sqrt (2 / real_of_int n_in))\<^sup>2 = 2 / real_of_int n_in
            \<and> g' = (\<lambda>i. g (nat n_out * nat n_in + i))"
    if pos: "0 < n_in \<and> 0 < n_out"
  proof -
    have scale: "sqrt 2 / sqrt (real (nat n_in)) = sqrt (2 / real_of_int n_in)"
      using pos by (simp add: real_sqrt_divide)
    have "data (weight_mu l)
            = map (\<lambda>e. 0 + sqrt 2 / sqrt (real (nat n_in)) * e) (map g [0..<nat n_out * nat n_in])"
      and "g' = (\<lambda>i. g (nat n_out * nat n_in + i))"
      using assms pos unfolding ok by auto
    then show ?thesis using pos unfolding scale by simp
  qed
  show ?thesis
    using ws bs approx mu by (simp add: torch_exp_def)
qed

theorem init_log_sigma_and_weight_scale_witness:
  "BnnLayer_init 2 1 one_rng = (Inr ex_fresh, one_rng)
   \<and> (0::int) < 2 \<and> (0::int) < 1
   \<and> data (weight_std ex_fresh) = [- 5, - 5] \<and> data (bias_std ex_fresh) = [- 5]
   \<and> data (weight_mu ex_fresh) = map (\<lambda>k. sqrt (2 / 2) * one_rng k) [0..<2]"
proof -
  have ok: "BnnLayer_init 2 1 one_rng = (Inr ex_fresh, one_rng)"
    using BnnLayer_init_ok[of 2 1 one_rng]
    by (simp add: one_rng_def ex_fresh_def numeral_2_eq_2 upt_rec)
  from init_log_sigma_and_weight_scale[OF ok] show ?thesis
    using ok by (simp add: numeral_2_eq_2)
qed

text \<open>
  Claim C3, as stated: a layer or network constructed with a non-positive size, or a
  network with \<open>num_layers < 1\<close>, fails before any tensor is allocated. The code has
  no check of its own. A size of 0 is accepted, and so is \<open>num_layers = 0\<close>; and when
  the output size is negative the hidden layer has been allocated and initialised
  (it has consumed a draw) before the allocation of the output layer raises.
\<close>

theorem construction_counterexample:
  "BnnLayer_init 0 3 zero_rng
     = (Inr \<lparr>in_features = 0, out_features = 3,
             weight_mu = \<lparr>shape = [3, 0], data = []\<rparr>,
             weight_std = \<lparr>shape = [3, 0], data = []\<rparr>,
             bias_mu = \<lparr>shape = [3], data = [0, 0, 0]\<rparr>,
             bias_std = \<lparr>shape = [3], data = [- 5, - 5, - 5]\<rparr>\<rparr>, zero_rng)
   \<and> BayesianModel_init 1 1 1 0 zero_rng
     = (Inr \<lparr>layers = [],
             output_layer = \<lparr>in_features = 1, out_features = 1,
                              weight_mu = \<lparr>shape = [1, 1], data = [0]\<rparr>,
                              weight_std = \<lparr>shape = [1, 1], data = [- 5]\<rparr>,
                              bias_mu = \<lparr>shape = [1], data = [0]\<rparr>,
                              bias_std = \<lparr>shape = [1], data = [- 5]\<rparr>\<rparr>\<rparr>, zero_rng)
   \<and> fst (BayesianModel_init 1 1 (- 1) 1 count_rng) = Inl RuntimeError
   \<and> snd (BayesianModel_init 1 1 (- 1) 1 count_rng) 0 = 1
   \<and> count_rng 0 = 0"
proof -
  have a: "BnnLayer_init 0 3 zero_rng
     = (Inr \<lparr>in_features = 0, out_features = 3,
             weight_mu = \<lparr>shape = [3, 0], data = []\<rparr>,
             weight_std = \<lparr>shape = [3, 0], data = []\<rparr>,
             bias_mu = \<lparr>shape = [3], data = [0, 0, 0]\<rparr>,
             bias_std = \<lparr>shape = [3], data = [- 5, - 5, - 5]\<rparr>\<rparr>, zero_rng)"
    using BnnLayer_init_ok[of 0 3 zero_rng] by (simp add: numeral_3_eq_3)
  have o: "BnnLayer_init 1 1 zero_rng
     = (Inr \<lparr>in_features = 1, out_features = 1,
             weight_mu = \<lparr>shape = [1, 1], data = [0]\<rparr>,
             weight_std = \<lparr>shape = [1, 1], data = [- 5]\<rparr>,
             bias_mu = \<lparr>shape = [1], data = [0]\<rparr>,
             bias_std = \<lparr>shape = [1], data = [- 5]\<rparr>\<rparr>, zero_rng)"
    using BnnLayer_init_ok[of 1 1 zero_rng] by (simp add: zero_rng_def)
  have b: "BayesianModel_init 1 1 1 0 zero_rng
     = (Inr \<lparr>layers = [],
             output_layer = \<lparr>in_features = 1, out_features = 1,
                              weight_mu = \<lparr>shape = [1, 1], data = [0]\<rparr>,
                              weight_std = \<lparr>shape = [1, 1], data = [- 5]\<rparr>,
                              bias_mu = \<lparr>shape = [1], data = [0]\<rparr>,
                              bias_std = \<lparr>shape = [1], data = [- 5]\<rparr>\<rparr>\<rparr>, zero_rng)"
    by (simp add: BayesianModel_init_def o)
  obtain l where l: "BnnLayer_init 1 1 count_rng = (Inr l, \<lambda>i. count_rng (1 + i))"
    using BnnLayer_init_ok[of 1 1 count_rng] by simp
  have f: "BnnLayer_init 1 (- 1) g = (Inl RuntimeError, g)" for g
    by (rule BnnLayer_init_negative) simp
  have c: "BayesianModel_init 1 1 (- 1) 1 count_rng = (Inl RuntimeError, \<lambda>i. count_rng (1 + i))"
    by (simp add: BayesianModel_init_def l f)
  show ?thesis using a b c by (simp add: count_rng_def)
qed

text \<open>
  Claim C3, amended: a layer constructed with a negative \<open>in_features\<close> or
  \<open>out_features\<close> fails with the error of its first tensor allocation, and no draw
  has been consumed; with sizes of 0 or more it is constructed. A network fails with
  that error when \<open>hidden_size\<close> or \<open>output_size\<close> is negative, or when \<open>input_size\<close>
  is negative and there is a hidden layer; otherwise it is constructed, with
  \<open>num_layers\<close> hidden layers (none when \<open>num_layers < 1\<close>).
\<close>

theorem construction_errors:
  "(n_in < 0 \<or> n_out < 0 \<longrightarrow> BnnLayer_init n_in n_out g = (Inl RuntimeError, g))
   \<and> (0 \<le> n_in \<and> 0 \<le> n_out \<longrightarrow> (\<exists>l g'. BnnLayer_init n_in n_out g = (Inr l, g')))
   \<and> (hidden_size < 0 \<or> output_size < 0 \<or> (input_size < 0 \<and> 1 \<le> num_layers) \<longrightarrow>
        fst (BayesianModel_init input_size hidden_size output_size num_layers g) = Inl RuntimeError)
   \<and> (0 \<le> hidden_size \<and> 0 \<le> output_size \<and> (0 \<le> input_size \<or> num_layers < 1) \<longrightarrow>
        (\<exists>m g'. BayesianModel_init input_size hidden_size output_size num_layers g = (Inr m, g')
                \<and> length (layers m) = nat num_layers))"
proof (intro conjI impI)
  assume "n_in < 0 \<or> n_out < 0"
  then show "BnnLayer_init n_in n_out g = (Inl RuntimeError, g)"
    by (rule BnnLayer_init_negative)
next
  assume "0 \<le> n_in \<and> 0 \<le> n_out"
  then show "\<exists>l g'. BnnLayer_init n_in n_out g = (Inr l, g')"
    using BnnLayer_init_ok[of n_in n_out g] by blast
next
  assume "hidden_size < 0 \<or> output_size < 0 \<or> (input_size < 0 \<and> 1 \<le> num_layers)"
  then show "fst (BayesianModel_init input_size hidden_size output_size num_layers g)
           = Inl RuntimeError"
    by (rule BayesianModel_init_fails)
next
  assume "0 \<le> hidden_size \<and> 0 \<le> output_size \<and> (0 \<le> input_size \<or> num_layers < 1)"
  then show "\<exists>m g'. BayesianModel_init input_size hidden_size output_size num_layers g = (Inr m, g')
                \<and> length (layers m) = nat num_layers"
    using BayesianModel_init_ok[of hidden_size output_size input_size num_layers g] by blast
qed

theorem construction_errors_witness:
  "BnnLayer_init (- 1) 3 zero_rng = (Inl RuntimeError, zero_rng)
   \<and> fst (BayesianModel_init 4 (- 8) 1 2 zero_rng) = Inl RuntimeError
   \<and> (\<exists>l g'. BnnLayer_init 4 8 zero_rng = (Inr l, g'))
   \<and> (\<exists>m g'. BayesianModel_init 4 8 1 2 zero_rng = (Inr m, g') \<and> length (layers m) = 2)"
  using construction_errors[of "- 1" 3 zero_rng "- 8" 1 4 2]
        construction_errors[of 4 8 zero_rng 8 1 4 2]
  by simp

subsection \<open>The forward pass of a layer\<close>

lemma rsample_zip:
  fixes ms ss :: "real list"
  assumes "length ms = n" "length ss = n"
  shows "map (\<lambda>(m, e, s). m + e * s) (zip ms (zip (map g [0..<n]) (map exp ss)))
       = map (\<lambda>k. ms ! k + exp (ss ! k) * g k) [0..<n]"
  using assms by (intro nth_equalityI) (auto simp: algebra_simps)

lemma rsample_same:
  assumes "wf_tensor mu" "wf_tensor ls" "shape mu = shape ls"
  shows "rsample \<lparr>loc = mu, scale = torch_exp ls\<rparr> g
       = (\<lparr>shape = shape mu,
           data = map (\<lambda>k. data mu ! k + exp (data ls ! k) * g k) [0..<prod_list (shape mu)]\<rparr>,
          advance (prod_list (shape mu)) g)"
  using assms rsample_zip[of "data mu" "prod_list (shape mu)" "data ls" g]
  by (simp add: rsample_def randn_def torch_exp_def wf_tensor_def advance_def)

lemma Normal_param:
  assumes "wf_tensor mu" "wf_tensor ls" "shape mu = shape ls"
  shows "Normal mu (torch_exp ls) = Inr \<lparr>loc = mu, scale = torch_exp ls\<rparr>"
  using assms
  by (intro Normal_same) (simp_all add: torch_exp_def wf_tensor_def list_all_exp)

lemma advance_advance: "advance a (advance b g) = advance (b + a) g"
  by (simp add: advance_def add.assoc)

lemma BnnLayer_forward_linear:
  assumes "layer_inv l"
  shows "BnnLayer_forward l x g
       = (F_linear x (sampled_weight l g) (sampled_bias l g), advance (layer_draws l) g)"
proof -
  let ?no = "nat (out_features l)" and ?ni = "nat (in_features l)"
  have nw: "Normal (weight_mu l) (torch_exp (weight_std l))
          = Inr \<lparr>loc = weight_mu l, scale = torch_exp (weight_std l)\<rparr>"
    using assms by (intro Normal_param) (simp_all add: layer_inv_def)
  have nb: "Normal (bias_mu l) (torch_exp (bias_std l))
          = Inr \<lparr>loc = bias_mu l, scale = torch_exp (bias_std l)\<rparr>"
    using assms by (intro Normal_param) (simp_all add: layer_inv_def)
  have rw: "rsample \<lparr>loc = weight_mu l, scale = torch_exp (weight_std l)\<rparr> g
          = (sampled_weight l g, advance (?no * ?ni) g)"
    using rsample_same[of "weight_mu l" "weight_std l" g] assms
    by (simp add: layer_inv_def sampled_weight_def)
  have rb: "rsample \<lparr>loc = bias_mu l, scale = torch_exp (bias_std l)\<rparr> (advance (?no * ?ni) g)
          = (sampled_bias l g, advance (layer_draws l) g)"
    using rsample_same[of "bias_mu l" "bias_std l" "advance (?no * ?ni) g"] assms
    by (simp add: layer_inv_def sampled_bias_def advance_advance layer_draws_def)
       (simp add: advance_def)
  show ?thesis
    unfolding BnnLayer_forward_def nw by (simp add: rw nb rb)
qed

lemma F_linear_sampled:
  "F_linear x (sampled_weight l g) (sampled_bias l g) =
     (if shape x = [] \<or> last (shape x) \<noteq> nat (in_features l) then Inl RuntimeError
      else Inr \<lparr>shape = butlast (shape x) @ [nat (out_features l)],
                data = concat (map (\<lambda>xr. map (\<lambda>(wr, bj). dot xr wr + bj)
                           (zip (rows (nat (out_features l)) (nat (in_features l))
                                      (data (sampled_weight l g)))
                                (data (sampled_bias l g))))
                         (rows (prod_list (butlast (shape x))) (nat (in_features l)) (data x)))\<rparr>)"
  by (simp add: F_linear_def sampled_weight_def sampled_bias_def)

lemma BnnLayer_forward_mismatch:
  assumes "layer_inv l" "shape x = [] \<or> last (shape x) \<noteq> nat (in_features l)"
  shows "BnnLayer_forward l x g = (Inl RuntimeError, advance (layer_draws l) g)"
  using assms(2) unfolding BnnLayer_forward_linear[OF assms(1)] F_linear_sampled by simp

lemma length_concat_uniform:
  assumes "\<forall>ys\<in>set xss. length ys = k"
  shows "length (concat xss) = length xss * k"
  using assms by (induction xss) simp_all

lemma BnnLayer_forward_shape:
  assumes "layer_inv l" "shape x = bs @ [nat (in_features l)]"
  shows "\<exists>y. BnnLayer_forward l x g = (Inr y, advance (layer_draws l) g) \<and>
             shape y = bs @ [nat (out_features l)] \<and> wf_tensor y"
proof -
  let ?no = "nat (out_features l)" and ?ni = "nat (in_features l)"
  let ?row = "\<lambda>xr. map (\<lambda>(wr, bj). dot xr wr + bj)
                 (zip (rows ?no ?ni (data (sampled_weight l g))) (data (sampled_bias l g)))"
  let ?y = "\<lparr>shape = bs @ [?no], data = concat (map ?row (rows (prod_list bs) ?ni (data x)))\<rparr>"
  have run: "BnnLayer_forward l x g = (Inr ?y, advance (layer_draws l) g)"
    unfolding BnnLayer_forward_linear[OF assms(1)] F_linear_sampled using assms(2) by simp
  have len_row: "length (?row xr) = ?no" for xr
    by (simp add: rows_def sampled_bias_def)
  have "length (concat (map ?row (rows (prod_list bs) ?ni (data x)))) = prod_list bs * ?no"
    using length_concat_uniform[of "map ?row (rows (prod_list bs) ?ni (data x))" ?no] len_row
    by (simp add: rows_def)
  then have "wf_tensor ?y" by (simp add: wf_tensor_def)
  then show ?thesis using run by simp
qed

lemma dot_nth:
  assumes "length xs = n" "length ys = n"
  shows "dot xs ys = (\<Sum>k<n. xs ! k * ys ! k)"
proof -
  have "dot xs ys = (\<Sum>k = 0..<n. map (\<lambda>(x, y). x * y) (zip xs ys) ! k)"
    using assms by (simp add: dot_def sum_list_sum_nth)
  also have "\<dots> = (\<Sum>k = 0..<n. xs ! k * ys ! k)"
    using assms by (intro sum.cong) simp_all
  finally show ?thesis by (simp add: atLeast0LessThan)
qed

lemma index_bound:
  fixes r k n i :: nat
  assumes "r < n" "k < i"
  shows "r * i + k < n * i"
proof -
  have "r * i + k < r * i + i" using assms(2) by simp
  also have "\<dots> = Suc r * i" by simp
  also have "\<dots> \<le> n * i" using assms(1) by (intro mult_le_mono1) simp
  finally show ?thesis .
qed

lemma chunk_length:
  assumes "length xs = n * i" "r < n"
  shows "length (take i (drop (r * i) xs)) = i"
proof -
  have "Suc r * i \<le> n * i" using assms(2) by (intro mult_le_mono1) simp
  then show ?thesis using assms(1) by simp
qed

lemma chunk_nth:
  assumes "length xs = n * i" "r < n" "k < i"
  shows "take i (drop (r * i) xs) ! k = xs ! (r * i + k)"
  using assms index_bound[OF assms(2,3)] by simp

lemma zip_map_upt: "zip (map f [0..<n]) (map h [0..<n]) = map (\<lambda>j. (f j, h j)) [0..<n]"
  by (intro nth_equalityI) simp_all

lemma prod_list_snoc: "prod_list (bs @ [k]) = prod_list bs * (k :: nat)"
  by simp

text \<open>What \<open>F.linear\<close> computes on the sampled weight and bias, element by element.\<close>

lemma linear_rows_affine:
  assumes "layer_inv l" "length (data x) = n * nat (in_features l)"
  shows "map (\<lambda>xr. map (\<lambda>(wr, bj). dot xr wr + bj)
                 (zip (rows (nat (out_features l)) (nat (in_features l)) (data (sampled_weight l g)))
                      (data (sampled_bias l g))))
             (rows n (nat (in_features l)) (data x))
       = map (\<lambda>r. map (\<lambda>j. affine_elem l x g r j) [0..<nat (out_features l)]) [0..<n]"
proof -
  let ?no = "nat (out_features l)" and ?ni = "nat (in_features l)"
  let ?W = "data (sampled_weight l g)"
  let ?fb = "\<lambda>j. data (bias_mu l) ! j + exp (data (bias_std l) ! j) * g (?no * ?ni + j)"
  have lenW: "length ?W = ?no * ?ni" by (simp add: sampled_weight_def)
  have Wnth: "?W ! q = data (weight_mu l) ! q + exp (data (weight_std l) ! q) * g q"
    if "q < ?no * ?ni" for q
    using that by (simp add: sampled_weight_def)
  have zipped: "zip (rows ?no ?ni ?W) (data (sampled_bias l g))
              = map (\<lambda>j. (take ?ni (drop (j * ?ni) ?W), ?fb j)) [0..<?no]"
    by (simp add: rows_def sampled_bias_def zip_map_upt)
  have elem: "dot (take ?ni (drop (r * ?ni) (data x))) (take ?ni (drop (j * ?ni) ?W)) + ?fb j
            = affine_elem l x g r j"
    if r: "r < n" and j: "j < ?no" for r j
  proof -
    have lx: "length (take ?ni (drop (r * ?ni) (data x))) = ?ni"
      by (rule chunk_length[OF assms(2) r])
    have lw: "length (take ?ni (drop (j * ?ni) ?W)) = ?ni"
      by (rule chunk_length[OF lenW j])
    have "dot (take ?ni (drop (r * ?ni) (data x))) (take ?ni (drop (j * ?ni) ?W))
        = (\<Sum>k<?ni. take ?ni (drop (r * ?ni) (data x)) ! k * take ?ni (drop (j * ?ni) ?W) ! k)"
      by (rule dot_nth[OF lx lw])
    also have "\<dots> = (\<Sum>k<?ni. data x ! (r * ?ni + k) *
          (data (weight_mu l) ! (j * ?ni + k)
           + exp (data (weight_std l) ! (j * ?ni + k)) * g (j * ?ni + k)))"
    proof (rule sum.cong[OF refl])
      fix k assume "k \<in> {..<?ni}"
      then have k: "k < ?ni" by simp
      have "take ?ni (drop (r * ?ni) (data x)) ! k = data x ! (r * ?ni + k)"
        by (rule chunk_nth[OF assms(2) r k])
      moreover have "take ?ni (drop (j * ?ni) ?W) ! k = ?W ! (j * ?ni + k)"
        by (rule chunk_nth[OF lenW j k])
      moreover have "?W ! (j * ?ni + k) = data (weight_mu l) ! (j * ?ni + k)
           + exp (data (weight_std l) ! (j * ?ni + k)) * g (j * ?ni + k)"
        by (rule Wnth[OF index_bound[OF j k]])
      ultimately show "take ?ni (drop (r * ?ni) (data x)) ! k * take ?ni (drop (j * ?ni) ?W) ! k
          = data x ! (r * ?ni + k) *
            (data (weight_mu l) ! (j * ?ni + k)
             + exp (data (weight_std l) ! (j * ?ni + k)) * g (j * ?ni + k))"
        by simp
    qed
    finally show ?thesis by (simp add: affine_elem_def Let_def)
  qed
  show ?thesis
    unfolding zipped
    by (simp add: rows_def elem)
qed

lemma BnnLayer_forward_spec:
  assumes "layer_inv l" "wf_tensor x" "shape x \<noteq> []" "last (shape x) = nat (in_features l)"
  shows "BnnLayer_forward l x g = (Inr (spec_layer_forward l x g), advance (layer_draws l) g)"
proof -
  have "shape x = butlast (shape x) @ [nat (in_features l)]"
    using assms(3,4) by (metis append_butlast_last_id)
  then have "prod_list (shape x) = prod_list (butlast (shape x)) * nat (in_features l)"
    using prod_list_snoc[of "butlast (shape x)" "nat (in_features l)"] by simp
  then have len: "length (data x) = prod_list (butlast (shape x)) * nat (in_features l)"
    using assms(2) by (simp add: wf_tensor_def)
  show ?thesis
    unfolding BnnLayer_forward_linear[OF assms(1)] F_linear_sampled
    using assms(3,4) linear_rows_affine[OF assms(1) len, of g]
    by (simp add: spec_layer_forward_def)
qed

lemma affine_elem_cong:
  assumes "\<forall>k<layer_draws l. g1 k = g2 k" "j < nat (out_features l)"
  shows "affine_elem l x g1 r j = affine_elem l x g2 r j"
proof -
  let ?no = "nat (out_features l)" and ?ni = "nat (in_features l)"
  have w: "g1 (j * ?ni + k) = g2 (j * ?ni + k)" if "k < ?ni" for k
  proof -
    have "j * ?ni + k < ?no * ?ni" by (rule index_bound[OF assms(2) that])
    then show ?thesis using assms(1) by (simp add: layer_draws_def)
  qed
  have b: "g1 (?no * ?ni + j) = g2 (?no * ?ni + j)"
    using assms by (simp add: layer_draws_def)
  show ?thesis
    unfolding affine_elem_def Let_def b
    by (intro arg_cong2[where f = "(+)"] sum.cong refl) (simp add: w)
qed

lemma spec_layer_forward_cong:
  assumes "\<forall>k<layer_draws l. g1 k = g2 k"
  shows "spec_layer_forward l x g1 = spec_layer_forward l x g2"
proof -
  have row: "map (\<lambda>j. affine_elem l x g1 r j) [0..<nat (out_features l)]
      = map (\<lambda>j. affine_elem l x g2 r j) [0..<nat (out_features l)]" for r
    by (intro map_cong refl) (simp add: affine_elem_cong[OF assms])
  show ?thesis unfolding spec_layer_forward_def by (simp only: row)
qed

subsection \<open>The forward pass of the network\<close>

lemma F_relu_shape: "shape (F_relu t) = shape t"
  by (simp add: F_relu_def)

lemma chained_Cons:
  assumes "chained (l # rest)" "rest \<noteq> []"
  shows "out_features l = in_features (hd rest) \<and> chained rest"
  using assms by (cases rest) simp_all

lemma forward_chain:
  assumes "list_all layer_inv (ls @ [out])" "chained (ls @ [out])"
      and "shape x = bs @ [nat (in_features (hd (ls @ [out])))]"
  shows "\<exists>y. (case forward_loop ls x g of
                (Inl e, g1) \<Rightarrow> (Inl e, g1)
              | (Inr h, g1) \<Rightarrow> BnnLayer_forward out h g1)
             = (Inr y, advance (sum_list (map layer_draws (ls @ [out]))) g)
           \<and> shape y = bs @ [nat (out_features out)] \<and> wf_tensor y"
  using assms
proof (induction ls arbitrary: x g)
  case Nil
  then show ?case using BnnLayer_forward_shape[of out x bs g] by simp
next
  case (Cons l ls)
  have linv: "layer_inv l" using Cons.prems(1) by simp
  have sx: "shape x = bs @ [nat (in_features l)]" using Cons.prems(3) by simp
  obtain h where h: "BnnLayer_forward l x g = (Inr h, advance (layer_draws l) g)"
    and sh: "shape h = bs @ [nat (out_features l)]"
    using BnnLayer_forward_shape[OF linv sx, of g] by blast
  have ch: "out_features l = in_features (hd (ls @ [out]))" "chained (ls @ [out])"
    using chained_Cons[of l "ls @ [out]"] Cons.prems(2) by simp_all
  have "list_all layer_inv (ls @ [out])" using Cons.prems(1) by simp
  moreover have "shape (F_relu h) = bs @ [nat (in_features (hd (ls @ [out])))]"
    using sh ch(1) by (simp add: F_relu_shape)
  ultimately obtain y where
    y: "(case forward_loop ls (F_relu h) (advance (layer_draws l) g) of
           (Inl e, g1) \<Rightarrow> (Inl e, g1)
         | (Inr h, g1) \<Rightarrow> BnnLayer_forward out h g1)
        = (Inr y, advance (sum_list (map layer_draws (ls @ [out]))) (advance (layer_draws l) g))"
    and sy: "shape y = bs @ [nat (out_features out)]" "wf_tensor y"
    using Cons.IH[OF _ ch(2), of "F_relu h" "advance (layer_draws l) g"] by blast
  show ?case using h y sy by (simp add: advance_advance)
qed

lemma BayesianModel_forward_shape:
  assumes "model_inv m" "shape x = bs @ [model_in m]"
  shows "\<exists>y. BayesianModel_forward m x g = (Inr y, advance (model_draws m) g)
           \<and> shape y = bs @ [model_out m] \<and> wf_tensor y"
  using forward_chain[of "layers m" "output_layer m" x bs g] assms
  by (simp add: model_inv_def all_layers_def model_in_def model_out_def
      BayesianModel_forward_def model_draws_def)

lemma rectify_relu: "rectify t = F_relu t"
  by (simp add: rectify_def F_relu_def)

lemma stages_error: "foldl (\<lambda>s l. hidden_stage l s) (Inl e, g) ls = (Inl e, g)"
  by (induction ls) (simp_all add: hidden_stage_def)

lemma stages_loop: "foldl (\<lambda>s l. hidden_stage l s) (Inr x, g) ls = forward_loop ls x g"
proof (induction ls arbitrary: x g)
  case Nil
  show ?case by simp
next
  case (Cons l ls)
  obtain r g1 where run: "BnnLayer_forward l x g = (r, g1)" by (cases "BnnLayer_forward l x g")
  show ?case
  proof (cases r)
    case (Inl e)
    then have "hidden_stage l (Inr x, g) = (Inl e, g1)"
      using run by (simp add: hidden_stage_def)
    then show ?thesis using run Inl by (simp add: stages_error)
  next
    case (Inr h)
    then have "hidden_stage l (Inr x, g) = (Inr (F_relu h), g1)"
      using run by (simp add: hidden_stage_def rectify_relu)
    then show ?thesis using run Inr Cons.IH[of "F_relu h" g1] by simp
  qed
qed

lemma forward_is_spec: "BayesianModel_forward m x g = spec_forward m x g"
proof -
  obtain r g1 where run: "forward_loop (layers m) x g = (r, g1)"
    by (cases "forward_loop (layers m) x g")
  show ?thesis
    using run
    by (cases r) (simp_all add: BayesianModel_forward_def spec_forward_def stages_loop
        output_stage_def)
qed

lemma ex_layer_inv: "layer_inv ex_layer"
  by (simp add: layer_inv_def ex_layer_def wf_tensor_def)

lemma ex_out_inv: "layer_inv ex_out"
  by (simp add: layer_inv_def ex_out_def wf_tensor_def)

lemma ex_layer_forward:
  "BnnLayer_forward ex_layer \<lparr>shape = [n, 1], data = xs\<rparr> g
     = (Inr \<lparr>shape = [n, 1], data = map (\<lambda>r. xs ! r * (2 + g 0) + (3 + g 1)) [0..<n]\<rparr>,
        advance 2 g)"
  if "length xs = n"
proof -
  have "BnnLayer_forward ex_layer \<lparr>shape = [n, 1], data = xs\<rparr> g
      = (Inr (spec_layer_forward ex_layer \<lparr>shape = [n, 1], data = xs\<rparr> g),
         advance (layer_draws ex_layer) g)"
    using that by (intro BnnLayer_forward_spec[OF ex_layer_inv]) (simp_all add: wf_tensor_def ex_layer_def)
  moreover have "concat (map (\<lambda>r. [f r]) [0..<n]) = map f [0..<n]" for f :: "nat \<Rightarrow> real"
    by (induction n) simp_all
  ultimately show ?thesis
    by (simp add: spec_layer_forward_def affine_elem_def layer_draws_def ex_layer_def
        numeral_2_eq_2)
qed

lemma ex_out_forward:
  "BnnLayer_forward ex_out \<lparr>shape = [n, 1], data = xs\<rparr> g
     = (Inr \<lparr>shape = [n, 1], data = map (\<lambda>r. xs ! r * (- 1 + g 0) + (0 + g 1)) [0..<n]\<rparr>,
        advance 2 g)"
  if "length xs = n"
proof -
  have "BnnLayer_forward ex_out \<lparr>shape = [n, 1], data = xs\<rparr> g
      = (Inr (spec_layer_forward ex_out \<lparr>shape = [n, 1], data = xs\<rparr> g),
         advance (layer_draws ex_out) g)"
    using that by (intro BnnLayer_forward_spec[OF ex_out_inv]) (simp_all add: wf_tensor_def ex_out_def)
  moreover have "concat (map (\<lambda>r. [f r]) [0..<n]) = map f [0..<n]" for f :: "nat \<Rightarrow> real"
    by (induction n) simp_all
  ultimately show ?thesis
    by (simp add: spec_layer_forward_def affine_elem_def layer_draws_def ex_out_def
        numeral_2_eq_2)
qed

text \<open>
  Claim C8. With the random source as an explicit generator state, a forward call of
  a layer returns \<open>x @ (mu_w + exp log_sigma_w * eps_w)\<^sup>T + (mu_b + exp log_sigma_b * eps_b)\<close>,
  where \<open>eps_w\<close> and \<open>eps_b\<close> are the next draws of the generator; the draws are
  consumed (the generator is advanced past them) and the layer is not changed. So
  two calls on the same input from generators with the same next draws return the
  same output, and calls from different generators can differ.
\<close>

theorem forward_reparameterised:
  assumes "layer_inv l" "wf_tensor x" "shape x \<noteq> []" "last (shape x) = nat (in_features l)"
  shows "BnnLayer_forward l x g = (Inr (spec_layer_forward l x g), advance (layer_draws l) g)
       \<and> ((\<forall>k<layer_draws l. g1 k = g2 k) \<longrightarrow>
            fst (BnnLayer_forward l x g1) = fst (BnnLayer_forward l x g2))
       \<and> fst (BnnLayer_forward ex_layer ex_x zero_rng) \<noteq> fst (BnnLayer_forward ex_layer ex_x one_rng)"
proof -
  have run: "BnnLayer_forward l x g = (Inr (spec_layer_forward l x g), advance (layer_draws l) g)"
    for g by (rule BnnLayer_forward_spec[OF assms])
  have same: "fst (BnnLayer_forward l x g1) = fst (BnnLayer_forward l x g2)"
    if "\<forall>k<layer_draws l. g1 k = g2 k"
    unfolding run using spec_layer_forward_cong[OF that] by simp
  have differ: "fst (BnnLayer_forward ex_layer ex_x zero_rng)
              \<noteq> fst (BnnLayer_forward ex_layer ex_x one_rng)"
    using ex_layer_forward[of "[1]" 1 zero_rng] ex_layer_forward[of "[1]" 1 one_rng]
    by (simp add: ex_x_def zero_rng_def one_rng_def)
  show ?thesis using run same differ by blast
qed

theorem forward_reparameterised_witness:
  "layer_inv ex_layer \<and> wf_tensor ex_x \<and> shape ex_x \<noteq> [] \<and>
   last (shape ex_x) = nat (in_features ex_layer) \<and>
   layer_draws ex_layer = 2 \<and> zero_rng 0 = late_rng 0 \<and> zero_rng 1 = late_rng 1 \<and>
   late_rng 2 \<noteq> zero_rng 2 \<and>
   BnnLayer_forward ex_layer ex_x zero_rng = (Inr \<lparr>shape = [1, 1], data = [5]\<rparr>, zero_rng) \<and>
   fst (BnnLayer_forward ex_layer ex_x late_rng) = Inr \<lparr>shape = [1, 1], data = [5]\<rparr>"
proof -
  have wf: "wf_tensor ex_x" and ne: "shape ex_x \<noteq> []"
    and la: "last (shape ex_x) = nat (in_features ex_layer)"
    by (simp_all add: ex_x_def wf_tensor_def ex_layer_def)
  have agree: "\<forall>k<layer_draws ex_layer. zero_rng k = late_rng k"
    by (simp add: layer_draws_def ex_layer_def zero_rng_def late_rng_def)
  note inst = forward_reparameterised[OF ex_layer_inv wf ne la, of zero_rng zero_rng late_rng]
  have val: "spec_layer_forward ex_layer ex_x zero_rng = \<lparr>shape = [1, 1], data = [5]\<rparr>"
    by (simp add: spec_layer_forward_def affine_elem_def ex_layer_def ex_x_def zero_rng_def)
  have adv: "advance (layer_draws ex_layer) zero_rng = zero_rng"
    by (simp add: advance_def zero_rng_def)
  from inst agree
  have r1: "BnnLayer_forward ex_layer ex_x zero_rng
          = (Inr (spec_layer_forward ex_layer ex_x zero_rng), advance (layer_draws ex_layer) zero_rng)"
    and r2: "fst (BnnLayer_forward ex_layer ex_x zero_rng) = fst (BnnLayer_forward ex_layer ex_x late_rng)"
    by blast+
  have v1: "BnnLayer_forward ex_layer ex_x zero_rng = (Inr \<lparr>shape = [1, 1], data = [5]\<rparr>, zero_rng)"
    using r1 by (simp only: val adv)
  have v2: "fst (BnnLayer_forward ex_layer ex_x late_rng) = Inr \<lparr>shape = [1, 1], data = [5]\<rparr>"
    using r2[symmetric] v1 by simp
  have draws: "layer_draws ex_layer = 2 \<and> zero_rng 0 = late_rng 0 \<and> zero_rng 1 = late_rng 1
      \<and> late_rng 2 \<noteq> zero_rng 2"
    by (simp add: layer_draws_def ex_layer_def zero_rng_def late_rng_def)
  show ?thesis using v1 v2 draws ex_layer_inv wf ne la by blast
qed

text \<open>
  Claim C10. A layer's forward on an input whose last dimension is \<open>in_features\<close>
  returns a tensor of the input's shape with the last dimension replaced by
  \<open>out_features\<close>, all leading dimensions unchanged; the network's forward on an input
  of shape \<open>(n, input_size)\<close>, and of any leading dimensions, returns the shape with
  \<open>output_size\<close> last. The result has as many elements as its shape says.
\<close>

theorem forward_shapes:
  "(layer_inv l \<and> shape x \<noteq> [] \<and> last (shape x) = nat (in_features l) \<longrightarrow>
      (\<exists>y g'. BnnLayer_forward l x g = (Inr y, g') \<and>
               shape y = butlast (shape x) @ [nat (out_features l)] \<and> wf_tensor y))
   \<and> (model_inv m \<and> shape x' = bs @ [model_in m] \<longrightarrow>
      (\<exists>y g'. BayesianModel_forward m x' g = (Inr y, g') \<and>
               shape y = bs @ [model_out m] \<and> wf_tensor y))
   \<and> (model_inv m \<and> shape x' = [n, model_in m] \<longrightarrow>
      (\<exists>y g'. BayesianModel_forward m x' g = (Inr y, g') \<and>
               shape y = [n, model_out m] \<and> wf_tensor y))"
proof (intro conjI impI)
  assume a: "layer_inv l \<and> shape x \<noteq> [] \<and> last (shape x) = nat (in_features l)"
  then have "shape x = butlast (shape x) @ [nat (in_features l)]"
    by (metis append_butlast_last_id)
  then show "\<exists>y g'. BnnLayer_forward l x g = (Inr y, g') \<and>
               shape y = butlast (shape x) @ [nat (out_features l)] \<and> wf_tensor y"
    using BnnLayer_forward_shape[of l x "butlast (shape x)" g] a by blast
next
  assume "model_inv m \<and> shape x' = bs @ [model_in m]"
  then show "\<exists>y g'. BayesianModel_forward m x' g = (Inr y, g') \<and>
               shape y = bs @ [model_out m] \<and> wf_tensor y"
    using BayesianModel_forward_shape[of m x' bs g] by blast
next
  assume "model_inv m \<and> shape x' = [n, model_in m]"
  then show "\<exists>y g'. BayesianModel_forward m x' g = (Inr y, g') \<and>
               shape y = [n, model_out m] \<and> wf_tensor y"
    using BayesianModel_forward_shape[of m x' "[n]" g] by auto
qed

theorem forward_shapes_witness:
  "layer_inv ex_fresh \<and> model_inv ex_model2 \<and> model_in ex_model2 = 1 \<and> model_out ex_model2 = 1 \<and>
   (\<exists>y g'. BnnLayer_forward ex_fresh \<lparr>shape = [3, 4, 2], data = replicate 24 1\<rparr> zero_rng = (Inr y, g')
            \<and> shape y = [3, 4, 1] \<and> wf_tensor y) \<and>
   (\<exists>y g'. BayesianModel_forward ex_model2 ex_x2 zero_rng = (Inr y, g')
            \<and> shape y = [2, 1] \<and> wf_tensor y)"
proof -
  have li: "layer_inv ex_fresh"
    by (simp add: layer_inv_def ex_fresh_def wf_tensor_def)
  have mi: "model_inv ex_model2"
    using ex_layer_inv ex_out_inv
    by (simp add: model_inv_def all_layers_def ex_model2_def) (simp add: ex_layer_def ex_out_def)
  have io: "model_in ex_model2 = 1" "model_out ex_model2 = 1"
    by (simp_all add: model_in_def model_out_def all_layers_def ex_model2_def ex_layer_def ex_out_def)
  let ?x = "\<lparr>shape = [3, 4, 2], data = replicate 24 1\<rparr>"
  have hx: "layer_inv ex_fresh \<and> shape ?x \<noteq> [] \<and> last (shape ?x) = nat (in_features ex_fresh)"
    using li by (simp add: ex_fresh_def)
  have hm: "model_inv ex_model2 \<and> shape ex_x2 = [2, model_in ex_model2]"
    using mi io by (simp add: ex_x2_def)
  from forward_shapes[of ex_fresh ?x zero_rng ex_model2 ex_x2 "[2]" 2] hx hm
  show ?thesis using li mi io by (simp add: ex_fresh_def)
qed

text \<open>
  Claim C7. The network's forward pass applies each hidden layer followed by
  \<open>max 0\<close>, in sequence, and then the output layer with no nonlinearity after it.
\<close>

theorem forward_structure:
  "BayesianModel_forward m x g = spec_forward m x g
   \<and> BayesianModel_forward \<lparr>layers = [], output_layer = out\<rparr> x g = BnnLayer_forward out x g
   \<and> (BnnLayer_forward l x g = (Inr h, g1) \<longrightarrow>
        BayesianModel_forward \<lparr>layers = l # ls, output_layer = out\<rparr> x g
          = BayesianModel_forward \<lparr>layers = ls, output_layer = out\<rparr>
              \<lparr>shape = shape h, data = map (\<lambda>v. max 0 v) (data h)\<rparr> g1)
   \<and> (BnnLayer_forward l x g = (Inl e, g1) \<longrightarrow>
        BayesianModel_forward \<lparr>layers = l # ls, output_layer = out\<rparr> x g = (Inl e, g1))"
  by (auto simp: forward_is_spec[symmetric] BayesianModel_forward_def F_relu_def
      split: prod.splits sum.splits)

theorem forward_structure_witness:
  "BnnLayer_forward ex_layer ex_x2 zero_rng = (Inr \<lparr>shape = [2, 1], data = [5, - 1]\<rparr>, zero_rng)
   \<and> BnnLayer_forward ex_out \<lparr>shape = [2, 1], data = [5, 0]\<rparr> zero_rng
       = (Inr \<lparr>shape = [2, 1], data = [- 5, 0]\<rparr>, zero_rng)
   \<and> BayesianModel_forward ex_model2 ex_x2 zero_rng
       = (Inr \<lparr>shape = [2, 1], data = [- 5, 0]\<rparr>, zero_rng)
   \<and> spec_forward ex_model2 ex_x2 zero_rng = (Inr \<lparr>shape = [2, 1], data = [- 5, 0]\<rparr>, zero_rng)
   \<and> BnnLayer_forward ex_layer \<lparr>shape = [1, 2], data = [1, 1]\<rparr> zero_rng
       = (Inl RuntimeError, zero_rng)
   \<and> BayesianModel_forward ex_model2 \<lparr>shape = [1, 2], data = [1, 1]\<rparr> zero_rng
       = (Inl RuntimeError, zero_rng)"
proof -
  have adv: "advance 2 zero_rng = zero_rng" by (simp add: advance_def zero_rng_def)
  have z: "zero_rng k = 0" for k by (simp add: zero_rng_def)
  have up: "[0..<2] = [0, 1]" by (simp add: upt_rec)
  have a: "BnnLayer_forward ex_layer ex_x2 zero_rng
         = (Inr \<lparr>shape = [2, 1], data = [5, - 1]\<rparr>, zero_rng)"
    using ex_layer_forward[of "[1, - 2]" 2 zero_rng] by (simp add: ex_x2_def adv up z)
  have b: "BnnLayer_forward ex_out \<lparr>shape = [2, 1], data = [5, 0]\<rparr> zero_rng
         = (Inr \<lparr>shape = [2, 1], data = [- 5, 0]\<rparr>, zero_rng)"
    using ex_out_forward[of "[5, 0]" 2 zero_rng] by (simp add: adv up z)
  note inst = forward_structure[of ex_model2 ex_x2 zero_rng ex_out ex_layer
      "\<lparr>shape = [2, 1], data = [5, - 1]\<rparr>" zero_rng "[]"]
  note inst0 = forward_structure[of ex_model2 "\<lparr>shape = [2, 1], data = [5, 0]\<rparr>" zero_rng ex_out]
  have s1: "BayesianModel_forward \<lparr>layers = [ex_layer], output_layer = ex_out\<rparr> ex_x2 zero_rng
          = BayesianModel_forward \<lparr>layers = [], output_layer = ex_out\<rparr>
              \<lparr>shape = [2, 1], data = [5, 0]\<rparr> zero_rng"
    using inst a by simp
  have s2: "BayesianModel_forward \<lparr>layers = [], output_layer = ex_out\<rparr>
              \<lparr>shape = [2, 1], data = [5, 0]\<rparr> zero_rng
          = BnnLayer_forward ex_out \<lparr>shape = [2, 1], data = [5, 0]\<rparr> zero_rng"
    using inst0 by blast
  have c: "BayesianModel_forward ex_model2 ex_x2 zero_rng
         = (Inr \<lparr>shape = [2, 1], data = [- 5, 0]\<rparr>, zero_rng)"
    unfolding ex_model2_def s1 s2 by (rule b)
  have d: "spec_forward ex_model2 ex_x2 zero_rng
         = (Inr \<lparr>shape = [2, 1], data = [- 5, 0]\<rparr>, zero_rng)"
    using inst c by metis
  have adv': "advance (layer_draws ex_layer) zero_rng = zero_rng"
    by (simp add: advance_def zero_rng_def)
  have mis: "shape \<lparr>shape = [1, 2], data = [1, 1]\<rparr> = []
      \<or> last (shape \<lparr>shape = [1, 2], data = [1, 1]\<rparr>) \<noteq> nat (in_features ex_layer)"
    by (simp add: ex_layer_def)
  have e: "BnnLayer_forward ex_layer \<lparr>shape = [1, 2], data = [1, 1]\<rparr> zero_rng
         = (Inl RuntimeError, zero_rng)"
    using BnnLayer_forward_mismatch[OF ex_layer_inv mis, of zero_rng] by (simp only: adv')
  note inst1 = forward_structure[of ex_model2 "\<lparr>shape = [1, 2], data = [1, 1]\<rparr>" zero_rng
      ex_out ex_layer _ zero_rng "[]" RuntimeError]
  have f: "BayesianModel_forward ex_model2 \<lparr>shape = [1, 2], data = [1, 1]\<rparr> zero_rng
         = (Inl RuntimeError, zero_rng)"
    unfolding ex_model2_def using inst1 e by blast
  show ?thesis using a b c d e f by blast
qed

subsection \<open>The loss\<close>

lemma advance_zero: "advance 0 g = g"
  by (simp add: advance_def)

lemma sample_outputs_run:
  assumes "model_inv m" "shape x = bs @ [model_in m]"
  shows "\<exists>outs. sample_outputs m x k g = (Inr outs, advance (k * model_draws m) g) \<and>
           length outs = k \<and>
           (\<forall>t\<in>set outs. shape t = bs @ [model_out m] \<and> wf_tensor t) \<and>
           (\<forall>j<k. BayesianModel_forward m x (advance (j * model_draws m) g)
                     = (Inr (outs ! j), advance (Suc j * model_draws m) g))"
proof (induction k arbitrary: g)
  case 0
  show ?case by (simp add: advance_zero)
next
  case (Suc k)
  let ?D = "model_draws m"
  obtain y where y: "BayesianModel_forward m x g = (Inr y, advance ?D g)"
    and sy: "shape y = bs @ [model_out m]" "wf_tensor y"
    using BayesianModel_forward_shape[OF assms, of g] by blast
  from Suc.IH[of "advance ?D g"] obtain outs where
    run: "sample_outputs m x k (advance ?D g) = (Inr outs, advance (k * ?D) (advance ?D g))"
    and len: "length outs = k"
    and shp: "\<forall>t\<in>set outs. shape t = bs @ [model_out m] \<and> wf_tensor t"
    and pass: "\<forall>j<k. BayesianModel_forward m x (advance (j * ?D) (advance ?D g))
                     = (Inr (outs ! j), advance (Suc j * ?D) (advance ?D g))"
    by blast
  have adv: "advance (a * ?D) (advance ?D g) = advance (Suc a * ?D) g" for a
    by (simp add: advance_advance)
  have "sample_outputs m x (Suc k) g = (Inr (y # outs), advance (Suc k * ?D) g)"
    using y run by (simp add: adv)
  moreover have "\<forall>j<Suc k. BayesianModel_forward m x (advance (j * ?D) g)
                     = (Inr ((y # outs) ! j), advance (Suc j * ?D) g)"
  proof (intro allI impI)
    fix j assume j: "j < Suc k"
    show "BayesianModel_forward m x (advance (j * ?D) g)
            = (Inr ((y # outs) ! j), advance (Suc j * ?D) g)"
    proof (cases j)
      case 0
      then show ?thesis using y by (simp add: advance_zero)
    next
      case (Suc j')
      then have "j' < k" using j by simp
      then have "BayesianModel_forward m x (advance (j' * ?D) (advance ?D g))
                     = (Inr (outs ! j'), advance (Suc j' * ?D) (advance ?D g))"
        using pass by blast
      then show ?thesis unfolding adv using Suc by simp
    qed
  qed
  ultimately show ?case using len shp sy by auto
qed

lemma torch_stack_ok:
  assumes "ts \<noteq> []" "\<forall>t\<in>set ts. shape t = s"
  shows "torch_stack ts = Inr \<lparr>shape = length ts # s, data = concat (map data ts)\<rparr>"
proof -
  obtain t rest where ts: "ts = t # rest" using assms(1) by (cases ts) auto
  have "list_all (\<lambda>u. shape u = shape t) ts" and "shape t = s"
    using assms(2) ts by (simp_all add: list_all_iff)
  then show ?thesis using ts by (simp add: torch_stack_def)
qed

lemma rows_concat:
  assumes "\<forall>ys\<in>set yss. length ys = p"
  shows "rows (length yss) p (concat yss) = yss"
  using assms
proof (induction yss)
  case Nil
  show ?case by (simp add: rows_def)
next
  case (Cons ys yss)
  have ly: "length ys = p" using Cons.prems by simp
  have ih: "map (\<lambda>r. take p (drop (r * p) (concat yss))) [0..<length yss] = yss"
    using Cons by (simp add: rows_def)
  have "[0..<Suc (length yss)] = 0 # map Suc [0..<length yss]"
    by (simp add: upt_conv_Cons map_Suc_upt del: upt_Suc)
  then have "rows (length (ys # yss)) p (concat (ys # yss))
      = take p (ys @ concat yss)
        # map (\<lambda>r. take p (drop (Suc r * p) (ys @ concat yss))) [0..<length yss]"
    by (simp add: rows_def comp_def del: upt_Suc)
  also have "take p (ys @ concat yss) = ys" using ly by simp
  also have "map (\<lambda>r. take p (drop (Suc r * p) (ys @ concat yss))) [0..<length yss]
           = map (\<lambda>r. take p (drop (r * p) (concat yss))) [0..<length yss]"
    using ly by simp
  finally show ?case using ih by simp
qed

lemma mean0_stack:
  assumes "ts \<noteq> []" "\<forall>t\<in>set ts. shape t = s \<and> wf_tensor t"
  shows "mean0 \<lparr>shape = length ts # s, data = concat (map data ts)\<rparr> = Inr (elementwise_mean ts)"
proof -
  have "\<forall>ys\<in>set (map data ts). length ys = prod_list s"
    using assms(2) by (auto simp: wf_tensor_def)
  then have r: "rows (length ts) (prod_list s) (concat (map data ts)) = map data ts"
    using rows_concat[of "map data ts" "prod_list s"] by simp
  have hd: "shape (hd ts) = s" using assms by (cases ts) auto
  show ?thesis
    by (simp add: mean0_def r elementwise_mean_def hd comp_def)
qed

lemma broadcast_shapes_scalar: "broadcast_shapes s [] = Some s"
  by (cases "rev s") (simp_all add: broadcast_shapes_def)

lemma concat_replicate_replicate:
  "concat (replicate n (replicate k v)) = replicate (n * k) v"
  by (induction n) (simp_all add: replicate_add)

lemma prod_list_ones: "prod_list (replicate n (1::nat)) = 1"
  by (induction n) simp_all

lemma expand_data_ones:
  "expand_data (replicate (length s) 1) s [v] = replicate (prod_list s) v"
proof (induction s)
  case Nil
  show ?case by simp
next
  case (Cons D Ds)
  have "expand_data (replicate (length (D # Ds)) 1) (D # Ds) [v]
      = (if 1 = D then replicate (prod_list Ds) v
         else concat (replicate D (replicate (prod_list Ds) v)))"
    using Cons.IH by (simp add: prod_list_ones)
  then show ?case by (auto simp: concat_replicate_replicate)
qed

lemma expand_scalar: "expand (scalar v) s = replicate (prod_list s) v"
  using expand_data_ones[of s v] by (simp add: expand_def scalar_def)

lemma Normal_unit:
  assumes "wf_tensor t"
  shows "Normal t (scalar 1)
       = Inr \<lparr>loc = t, scale = \<lparr>shape = shape t, data = replicate (prod_list (shape t)) 1\<rparr>\<rparr>"
proof -
  have b: "broadcast_shapes (shape t) (shape (scalar 1)) = Some (shape t)"
    by (simp add: scalar_def broadcast_shapes_scalar)
  have e: "expand (scalar 1) (shape t) = replicate (prod_list (shape t)) 1"
    by (rule expand_scalar)
  have p: "list_all (\<lambda>v. 0 < v) (replicate (prod_list (shape t)) (1::real))"
    by (simp add: list_all_iff)
  show ?thesis
    unfolding Normal_def b using p by (simp add: e expand_same[OF assms])
qed

lemma length_concat_replicate: "length (concat (replicate n xs)) = n * length xs"
  by (induction n) simp_all

lemma expand_data_length_cong:
  "length xs = length ys \<Longrightarrow> length (expand_data ds Ds xs) = length (expand_data ds Ds ys)"
proof (induction ds Ds xs arbitrary: ys rule: expand_data.induct)
  case (1 d ds D Ds xs)
  let ?cx = "map (\<lambda>i. expand_data ds Ds (take (prod_list ds) (drop (i * prod_list ds) xs))) [0..<d]"
  let ?cy = "map (\<lambda>i. expand_data ds Ds (take (prod_list ds) (drop (i * prod_list ds) ys))) [0..<d]"
  have "map length ?cx = map length ?cy"
  proof -
    have "length (expand_data ds Ds (take (prod_list ds) (drop (i * prod_list ds) xs)))
        = length (expand_data ds Ds (take (prod_list ds) (drop (i * prod_list ds) ys)))"
      if "i \<in> set [0..<d]" for i
      using "1.prems" by (intro "1.IH"[OF that]) simp
    then show ?thesis by simp
  qed
  then have eq: "length (concat ?cx) = length (concat ?cy)"
    by (simp only: length_concat)
  have "length (expand_data (d # ds) (D # Ds) xs)
      = (if d = D then length (concat ?cx) else D * length (concat ?cx))"
    by (simp add: Let_def length_concat_replicate del: length_concat)
  moreover have "length (expand_data (d # ds) (D # Ds) ys)
      = (if d = D then length (concat ?cy) else D * length (concat ?cy))"
    by (simp add: Let_def length_concat_replicate del: length_concat)
  ultimately show ?case by (simp only: eq)
qed simp_all

lemma expand_data_set: "set (expand_data ds Ds xs) \<subseteq> set xs"
proof (induction ds Ds xs rule: expand_data.induct)
  case (1 d ds D Ds xs)
  let ?f = "\<lambda>i. expand_data ds Ds (take (prod_list ds) (drop (i * prod_list ds) xs))"
  have sub: "set (?f i) \<subseteq> set xs" if "i \<in> set [0..<d]" for i
  proof -
    have "set (?f i) \<subseteq> set (take (prod_list ds) (drop (i * prod_list ds) xs))"
      by (rule "1.IH"[OF that])
    also have "\<dots> \<subseteq> set xs"
      by (meson set_drop_subset set_take_subset subset_trans)
    finally show ?thesis .
  qed
  have "set (concat (map ?f [0..<d])) = (\<Union>i\<in>set [0..<d]. set (?f i))"
    by simp
  also have "\<dots> \<subseteq> set xs" using sub by blast
  finally have c: "set (concat (map ?f [0..<d])) \<subseteq> set xs" .
  have "set (expand_data (d # ds) (D # Ds) xs) \<subseteq> set (concat (map ?f [0..<d]))"
    by (auto simp: Let_def split: if_splits)
  then show ?case using c by (rule subset_trans)
qed simp_all

lemma zip_unit_scale:
  assumes "length es = length ms" "\<forall>e\<in>set es. e = c"
  shows "map (\<lambda>(x, m, s). f x m s) (zip vs (zip ms es)) = map (\<lambda>(x, m). f x m c) (zip vs ms)"
proof -
  have "es = replicate (length ms) c"
    using assms by (intro replicate_eqI) auto
  then have "zip ms es = map (\<lambda>m. (m, c)) ms"
    by (simp add: zip_replicate2)
  then show ?thesis by (simp add: zip_map2 comp_def case_prod_beta)
qed

lemma log_density_unit:
  "- ((x - m)\<^sup>2) / (2 * 1\<^sup>2) - ln 1 - ln (sqrt (2 * pi)) = ln (normal_pdf m 1 x)"
proof -
  have "0 < sqrt (2 * pi)" by simp
  then have "ln (exp (- (x - m)\<^sup>2 / 2) / sqrt (2 * pi)) = - (x - m)\<^sup>2 / 2 - ln (sqrt (2 * pi))"
    by (simp add: ln_div)
  then show ?thesis by (simp add: normal_pdf_def)
qed

lemma log_prob_unit:
  assumes "wf_tensor t" "broadcast_shapes (shape v) (shape t) = Some bs"
  shows "log_prob \<lparr>loc = t, scale = \<lparr>shape = shape t, data = replicate (prod_list (shape t)) 1\<rparr>\<rparr> v
       = Inr \<lparr>shape = bs,
              data = map (\<lambda>(x, m). ln (normal_pdf m 1 x)) (zip (expand v bs) (expand t bs))\<rparr>"
proof -
  let ?ones = "\<lparr>shape = shape t, data = replicate (prod_list (shape t)) (1::real)\<rparr>"
  have len: "length (expand ?ones bs) = length (expand t bs)"
    using assms(1) by (simp add: expand_def wf_tensor_def expand_data_length_cong)
  have "set (expand ?ones bs) \<subseteq> set (replicate (prod_list (shape t)) 1)"
    by (simp add: expand_def expand_data_set)
  then have one: "\<forall>e\<in>set (expand ?ones bs). e = 1" by auto
  have "map (\<lambda>(x, m, s). - ((x - m)\<^sup>2) / (2 * s\<^sup>2) - ln s - ln (sqrt (2 * pi)))
            (zip (expand v bs) (zip (expand t bs) (expand ?ones bs)))
      = map (\<lambda>(x, m). - ((x - m)\<^sup>2) / (2 * 1\<^sup>2) - ln 1 - ln (sqrt (2 * pi)))
            (zip (expand v bs) (expand t bs))"
    by (rule zip_unit_scale[OF len one])
  also have "\<dots> = map (\<lambda>(x, m). ln (normal_pdf m 1 x)) (zip (expand v bs) (expand t bs))"
    by (simp only: log_density_unit)
  finally show ?thesis using assms(2) by (simp add: log_prob_def)
qed

lemma log_prob_mismatch:
  assumes "broadcast_shapes (shape v) (shape (loc d)) = None"
  shows "log_prob d v = Inl ValueError"
  using assms by (simp add: log_prob_def)

lemma elementwise_mean_wf:
  assumes "ts \<noteq> []" "\<forall>t\<in>set ts. shape t = s"
  shows "shape (elementwise_mean ts) = s" and "wf_tensor (elementwise_mean ts)"
proof -
  have "shape (hd ts) = s" using assms by (cases ts) auto
  then show "shape (elementwise_mean ts) = s" and "wf_tensor (elementwise_mean ts)"
    by (simp_all add: elementwise_mean_def wf_tensor_def)
qed

lemma model_kl_defined:
  assumes "model_inv m"
  shows "\<exists>K. BayesianModel_kl_divergence m = Inr K"
proof -
  have hid: "map BnnLayer_kl_divergence (layers m)
      = map Inr (map (\<lambda>l. half_sq (weight_mu l) (weight_std l) + half_sq (bias_mu l) (bias_std l))
                     (layers m))"
    by (rule layers_kl_defined[OF model_inv_parts(1)[OF assms]])
  show ?thesis
    using BayesianModel_kl_value[OF hid BnnLayer_kl_value[OF model_inv_parts(2)[OF assms]]] by blast
qed

text \<open>The loss once the samples are drawn: everything after the sampling loop.\<close>

lemma elbo_loss_after_sampling:
  assumes kl: "BayesianModel_kl_divergence m = Inr K"
      and run: "sample_outputs m x (nat num_samples) g = (Inr outs, g')"
      and ne: "outs \<noteq> []"
      and shp: "\<forall>t\<in>set outs. shape t = s \<and> wf_tensor t"
      and x: "shape x = N # rest"
  shows "elbo_loss m x y num_samples g =
     (case broadcast_shapes (shape y) s of
        None \<Rightarrow> (Inl ValueError, g')
      | Some bs \<Rightarrow>
          (Inr (if N = 0 then None
                else Some (- ((\<Sum>(v, mu)\<leftarrow>zip (expand y bs) (expand (elementwise_mean outs) bs).
                                 ln (normal_pdf mu 1 v)) - K / real N))), g'))"
proof -
  have shp': "\<forall>t\<in>set outs. shape t = s" using shp by simp
  have st: "torch_stack outs = Inr \<lparr>shape = length outs # s, data = concat (map data outs)\<rparr>"
    by (rule torch_stack_ok[OF ne shp'])
  have me: "mean0 \<lparr>shape = length outs # s, data = concat (map data outs)\<rparr>
          = Inr (elementwise_mean outs)"
    by (rule mean0_stack[OF ne shp])
  have sm: "shape (elementwise_mean outs) = s" and wm: "wf_tensor (elementwise_mean outs)"
    by (rule elementwise_mean_wf[OF ne shp'])+
  let ?d = "\<lparr>loc = elementwise_mean outs,
             scale = \<lparr>shape = s, data = replicate (prod_list s) 1\<rparr>\<rparr>"
  have no: "Normal (elementwise_mean outs) (scalar 1) = Inr ?d"
    using Normal_unit[OF wm] sm by simp
  have ln: "len x = Inr N" using x by (simp add: len_def)
  show ?thesis
  proof (cases "broadcast_shapes (shape y) s")
    case None
    then have "log_prob ?d y = Inl ValueError"
      by (intro log_prob_mismatch) (simp add: sm)
    then show ?thesis using None by (simp add: elbo_loss_def kl run st me no)
  next
    case (Some bs)
    have "log_prob ?d y
        = Inr \<lparr>shape = bs,
               data = map (\<lambda>(x, m). ln (normal_pdf m 1 x))
                          (zip (expand y bs) (expand (elementwise_mean outs) bs))\<rparr>"
      using log_prob_unit[OF wm, of y bs] Some sm by simp
    then show ?thesis
      using Some by (simp add: elbo_loss_def kl run st me no ln tensor_sum_def div_len_def)
  qed
qed

lemma ex_model2_inv: "model_inv ex_model2"
  using ex_layer_inv ex_out_inv
  by (simp add: model_inv_def all_layers_def ex_model2_def) (simp add: ex_layer_def ex_out_def)

lemma ex_model2_sizes: "model_in ex_model2 = 1" "model_out ex_model2 = 1" "model_draws ex_model2 = 4"
  by (simp_all add: model_in_def model_out_def model_draws_def layer_draws_def all_layers_def
      ex_model2_def ex_layer_def ex_out_def)

lemma advance_zero_rng: "advance n zero_rng = zero_rng"
  by (simp add: advance_def zero_rng_def)

lemma ex_model2_forward:
  "BayesianModel_forward ex_model2 ex_x2 zero_rng
     = (Inr \<lparr>shape = [2, 1], data = [- 5, 0]\<rparr>, zero_rng)"
proof -
  have z: "zero_rng k = 0" for k by (simp add: zero_rng_def)
  have up: "[0..<2] = [0, 1]" by (simp add: upt_rec)
  have a: "BnnLayer_forward ex_layer ex_x2 zero_rng
         = (Inr \<lparr>shape = [2, 1], data = [5, - 1]\<rparr>, zero_rng)"
    using ex_layer_forward[of "[1, - 2]" 2 zero_rng]
    by (simp add: ex_x2_def advance_zero_rng up z)
  have b: "BnnLayer_forward ex_out \<lparr>shape = [2, 1], data = [5, 0]\<rparr> zero_rng
         = (Inr \<lparr>shape = [2, 1], data = [- 5, 0]\<rparr>, zero_rng)"
    using ex_out_forward[of "[5, 0]" 2 zero_rng] by (simp add: advance_zero_rng up z)
  show ?thesis
    using a b by (simp add: BayesianModel_forward_def ex_model2_def F_relu_def)
qed

lemma ex_model2_kl: "BayesianModel_kl_divergence ex_model2 = Inr 7"
proof -
  have a: "BnnLayer_kl_divergence ex_layer = Inr (13 / 2)"
    using BnnLayer_kl_value[OF ex_layer_inv] by (simp add: half_sq_def ex_layer_def)
  have b: "BnnLayer_kl_divergence ex_out = Inr (1 / 2)"
    using BnnLayer_kl_value[OF ex_out_inv] by (simp add: half_sq_def ex_out_def)
  show ?thesis
    using BayesianModel_kl_value[of ex_model2 "[13 / 2]" "1 / 2"] a b
    by (simp add: ex_model2_def)
qed

lemma log_pdf_unit: "ln (normal_pdf m 1 x) = - (x - m)\<^sup>2 / 2 - ln (sqrt (2 * pi))"
  using log_density_unit[of x m] by simp

text \<open>
  Claim C1. For every input \<open>x\<close> of \<open>N\<close> rows, every target \<open>y\<close> and every positive
  \<open>num_samples\<close>, \<open>elbo_loss\<close> returns \<open>- (L - K / N)\<close>: \<open>K\<close> is the divergence of the
  network, computed once; \<open>y_hat\<close> is the elementwise mean of the outputs of
  \<open>num_samples\<close> forward passes on \<open>x\<close>, each on the draws the previous pass left; \<open>L\<close> is
  the sum over all elements of the logarithm of the density of \<open>y\<close> under
  \<open>Normal(y_hat, 1)\<close>, with \<open>y\<close> broadcast against \<open>y_hat\<close>. For \<open>N = 0\<close> the float result
  is not finite.
\<close>

theorem elbo_loss_value:
  assumes "model_inv m"
      and "shape x = N # rest" and "last (shape x) = model_in m"
      and "0 < num_samples"
      and "broadcast_shapes (shape y) (butlast (shape x) @ [model_out m]) = Some bs"
  shows "\<exists>outs K.
           sample_outputs m x (nat num_samples) g
             = (Inr outs, advance (nat num_samples * model_draws m) g)
         \<and> length outs = nat num_samples
         \<and> (\<forall>j<nat num_samples.
               BayesianModel_forward m x (advance (j * model_draws m) g)
                 = (Inr (outs ! j), advance (Suc j * model_draws m) g))
         \<and> BayesianModel_kl_divergence m = Inr K
         \<and> elbo_loss m x y num_samples g
             = (Inr (if N = 0 then None
                     else Some (- ((\<Sum>(v, mu)\<leftarrow>zip (expand y bs) (expand (elementwise_mean outs) bs).
                                      ln (normal_pdf mu 1 v))
                                   - K / real N))),
                advance (nat num_samples * model_draws m) g)"
proof -
  let ?s = "butlast (shape x) @ [model_out m]"
  let ?g' = "advance (nat num_samples * model_draws m) g"
  have sx: "shape x = butlast (shape x) @ [model_in m]"
    using assms(2,3) by (metis append_butlast_last_id list.distinct(1))
  obtain K where K: "BayesianModel_kl_divergence m = Inr K"
    using model_kl_defined[OF assms(1)] by blast
  obtain outs where run: "sample_outputs m x (nat num_samples) g = (Inr outs, ?g')"
    and len: "length outs = nat num_samples"
    and shp: "\<forall>t\<in>set outs. shape t = ?s \<and> wf_tensor t"
    and pass: "\<forall>j<nat num_samples.
               BayesianModel_forward m x (advance (j * model_draws m) g)
                 = (Inr (outs ! j), advance (Suc j * model_draws m) g)"
    using sample_outputs_run[OF assms(1) sx, of "nat num_samples" g] by blast
  have ne: "outs \<noteq> []" using len assms(4) by auto
  have "elbo_loss m x y num_samples g
      = (Inr (if N = 0 then None
              else Some (- ((\<Sum>(v, mu)\<leftarrow>zip (expand y bs) (expand (elementwise_mean outs) bs).
                               ln (normal_pdf mu 1 v))
                            - K / real N))), ?g')"
    using elbo_loss_after_sampling[OF K run ne shp assms(2), of y] assms(5) by simp
  then show ?thesis using run len pass K by blast
qed

theorem elbo_loss_value_witness:
  "model_inv ex_model2 \<and> shape ex_x2 = [2, 1] \<and> last (shape ex_x2) = model_in ex_model2 \<and>
   (0::int) < 2 \<and>
   broadcast_shapes (shape ex_y2) (butlast (shape ex_x2) @ [model_out ex_model2]) = Some [2, 1] \<and>
   BayesianModel_kl_divergence ex_model2 = Inr 7 \<and>
   elbo_loss ex_model2 ex_x2 ex_y2 2 zero_rng
     = (Inr (Some (2 * ln (sqrt (2 * pi)) + 7 / 2)), zero_rng)"
proof -
  have sx: "shape ex_x2 = [2, 1]" and la: "last (shape ex_x2) = model_in ex_model2"
    by (simp_all add: ex_x2_def ex_model2_sizes)
  have bc: "broadcast_shapes (shape ex_y2) (butlast (shape ex_x2) @ [model_out ex_model2]) = Some [2, 1]"
    by (simp add: ex_y2_def ex_x2_def ex_model2_sizes broadcast_shapes_def)
  have two: "nat 2 = Suc (Suc 0)" by simp
  have so: "sample_outputs ex_model2 ex_x2 (nat 2) zero_rng
          = (Inr [\<lparr>shape = [2, 1], data = [- 5, 0]\<rparr>, \<lparr>shape = [2, 1], data = [- 5, 0]\<rparr>], zero_rng)"
    unfolding two by (simp add: ex_model2_forward)
  from elbo_loss_value[OF ex_model2_inv sx la _ bc, of 2 zero_rng]
  obtain outs K where
    o: "sample_outputs ex_model2 ex_x2 (nat 2) zero_rng
          = (Inr outs, advance (nat 2 * model_draws ex_model2) zero_rng)"
    and k: "BayesianModel_kl_divergence ex_model2 = Inr K"
    and e: "elbo_loss ex_model2 ex_x2 ex_y2 2 zero_rng
             = (Inr (if (2::nat) = 0 then None
                     else Some (- ((\<Sum>(v, mu)\<leftarrow>zip (expand ex_y2 [2, 1])
                                                     (expand (elementwise_mean outs) [2, 1]).
                                      ln (normal_pdf mu 1 v))
                                   - K / real 2))),
                advance (nat 2 * model_draws ex_model2) zero_rng)"
    by auto
  have outs: "outs = [\<lparr>shape = [2, 1], data = [- 5, 0]\<rparr>, \<lparr>shape = [2, 1], data = [- 5, 0]\<rparr>]"
    using o so by simp
  have K: "K = 7" using k ex_model2_kl by simp
  have up: "[0..<2] = [0, 1]" by (simp add: upt_rec)
  have mean: "elementwise_mean outs = \<lparr>shape = [2, 1], data = [- 5, 0]\<rparr>"
    by (simp add: outs elementwise_mean_def up)
  have ey: "expand ex_y2 [2, 1] = [- 5, 0]"
    using expand_same[of ex_y2] by (simp add: ex_y2_def wf_tensor_def)
  have em: "expand \<lparr>shape = [2, 1], data = [- 5, 0]\<rparr> [2, 1] = [- 5, 0]"
    using expand_same[of "\<lparr>shape = [2, 1], data = [- 5, 0]\<rparr>"] by (simp add: wf_tensor_def)
  have "elbo_loss ex_model2 ex_x2 ex_y2 2 zero_rng
      = (Inr (Some (2 * ln (sqrt (2 * pi)) + 7 / 2)), zero_rng)"
    using e ey em mean by (simp add: K log_pdf_unit advance_zero_rng)
  then show ?thesis using ex_model2_inv sx la bc ex_model2_kl by simp
qed

text \<open>
  Claim C4, as stated: \<open>elbo_loss\<close> with a \<open>y\<close> whose leading dimension differs from that
  of \<open>x\<close> fails. The code has no check of its own, and the density broadcasts: with
  \<open>x\<close> of two rows and \<open>y\<close> of one row the single target is used for both rows and a
  loss is returned.
\<close>

theorem elbo_loss_broadcast_counterexample:
  "shape ex_x2 = [2, 1] \<and> shape ex_y1 = [1, 1] \<and>
   elbo_loss ex_model2 ex_x2 ex_y1 1 zero_rng
     = (Inr (Some (16 + 2 * ln (sqrt (2 * pi)))), zero_rng)"
proof -
  have so: "sample_outputs ex_model2 ex_x2 (nat 1) zero_rng
          = (Inr [\<lparr>shape = [2, 1], data = [- 5, 0]\<rparr>], zero_rng)"
    by (simp add: ex_model2_forward)
  have shp: "\<forall>t\<in>set [\<lparr>shape = [2, 1], data = [- 5, 0]\<rparr>]. shape t = [2, 1] \<and> wf_tensor t"
    by (simp add: wf_tensor_def)
  have sx: "shape ex_x2 = [2, 1]" by (simp add: ex_x2_def)
  have bc: "broadcast_shapes (shape ex_y1) [2, 1] = Some [2, 1]"
    by (simp add: ex_y1_def broadcast_shapes_def)
  have up: "[0..<2] = [0, 1]" by (simp add: upt_rec)
  have mean: "elementwise_mean [\<lparr>shape = [2, 1], data = [- 5, 0]\<rparr>]
            = \<lparr>shape = [2, 1], data = [- 5, 0]\<rparr>"
    by (simp add: elementwise_mean_def up)
  have ey: "expand ex_y1 [2, 1] = [0, 0]"
    by (simp add: expand_def ex_y1_def up numeral_2_eq_2)
  have em: "expand \<lparr>shape = [2, 1], data = [- 5, 0]\<rparr> [2, 1] = [- 5, 0]"
    using expand_same[of "\<lparr>shape = [2, 1], data = [- 5, 0]\<rparr>"] by (simp add: wf_tensor_def)
  have "elbo_loss ex_model2 ex_x2 ex_y1 1 zero_rng
      = (Inr (Some (16 + 2 * ln (sqrt (2 * pi)))), zero_rng)"
    using elbo_loss_after_sampling[OF ex_model2_kl so _ shp sx, of ex_y1] bc ey em mean
    by (simp add: log_pdf_unit)
  then show ?thesis by (simp add: ex_x2_def ex_y1_def)
qed

text \<open>
  Claim C4, amended: a layer's forward on an input without dimensions, or whose
  trailing dimension differs from \<open>in_features\<close>, fails with the shape error of the
  library and returns no tensor; \<open>elbo_loss\<close> fails, with the error of the density,
  when the shape of \<open>y\<close> cannot be broadcast against the shape of the prediction
  (the leading dimensions of \<open>x\<close>, then \<open>output_size\<close>), as for \<open>y\<close> of shape
  \<open>(M, output_size)\<close> and \<open>x\<close> of shape \<open>(N, input_size)\<close> with \<open>M \<noteq> N\<close> and neither
  equal to 1.
\<close>

theorem shape_errors:
  "(layer_inv l \<and> (shape x = [] \<or> last (shape x) \<noteq> nat (in_features l)) \<longrightarrow>
      fst (BnnLayer_forward l x g) = Inl RuntimeError)
   \<and> (model_inv m \<and> shape x' = bs @ [model_in m] \<and> 0 < num_samples \<and>
       broadcast_shapes (shape y) (bs @ [model_out m]) = None \<longrightarrow>
      fst (elbo_loss m x' y num_samples g) = Inl ValueError)
   \<and> (model_inv m \<and> shape x' = [N, model_in m] \<and> shape y = [M, model_out m] \<and>
       0 < num_samples \<and> M \<noteq> N \<and> M \<noteq> 1 \<and> N \<noteq> 1 \<longrightarrow>
      fst (elbo_loss m x' y num_samples g) = Inl ValueError)"
proof -
  have layer: "fst (BnnLayer_forward l x g) = Inl RuntimeError"
    if "layer_inv l \<and> (shape x = [] \<or> last (shape x) \<noteq> nat (in_features l))"
    using that BnnLayer_forward_mismatch[of l x g] by auto
  have loss: "fst (elbo_loss m x' y num_samples g) = Inl ValueError"
    if h: "model_inv m \<and> shape x' = bs @ [model_in m] \<and> 0 < num_samples \<and>
           broadcast_shapes (shape y) (bs @ [model_out m]) = None" for bs
  proof -
    obtain K where K: "BayesianModel_kl_divergence m = Inr K"
      using model_kl_defined h by blast
    obtain outs where run: "sample_outputs m x' (nat num_samples) g
          = (Inr outs, advance (nat num_samples * model_draws m) g)"
      and len: "length outs = nat num_samples"
      and shp: "\<forall>t\<in>set outs. shape t = bs @ [model_out m] \<and> wf_tensor t"
      using sample_outputs_run[of m x' bs "nat num_samples" g] h by blast
    have ne: "outs \<noteq> []" using len h by auto
    obtain n rest where sx: "shape x' = n # rest" using h by (cases bs) auto
    show ?thesis
      using elbo_loss_after_sampling[OF K run ne shp sx, of y] h by simp
  qed
  have rows: "fst (elbo_loss m x' y num_samples g) = Inl ValueError"
    if h: "model_inv m \<and> shape x' = [N, model_in m] \<and> shape y = [M, model_out m] \<and>
           0 < num_samples \<and> M \<noteq> N \<and> M \<noteq> 1 \<and> N \<noteq> 1"
  proof -
    have "broadcast_shapes (shape y) ([N] @ [model_out m]) = None"
      using h by (simp add: broadcast_shapes_def)
    then show ?thesis using loss[of "[N]"] h by simp
  qed
  show ?thesis using layer loss rows by blast
qed

theorem shape_errors_witness:
  "layer_inv ex_layer \<and> model_inv ex_model2 \<and>
   fst (BnnLayer_forward ex_layer \<lparr>shape = [4, 5], data = replicate 20 0\<rparr> zero_rng) = Inl RuntimeError \<and>
   shape ex_x2 = [2, model_in ex_model2] \<and>
   fst (elbo_loss ex_model2 ex_x2 \<lparr>shape = [3, 1], data = [0, 0, 0]\<rparr> 5 zero_rng) = Inl ValueError"
proof -
  let ?x = "\<lparr>shape = [4, 5], data = replicate 20 (0::real)\<rparr>"
  let ?y = "\<lparr>shape = [3, 1], data = [0, 0, 0 :: real]\<rparr>"
  have h1: "layer_inv ex_layer \<and> (shape ?x = [] \<or> last (shape ?x) \<noteq> nat (in_features ex_layer))"
    using ex_layer_inv by (simp add: ex_layer_def)
  have sx: "shape ex_x2 = [2, model_in ex_model2]"
    by (simp add: ex_x2_def ex_model2_sizes)
  have h3: "model_inv ex_model2 \<and> shape ex_x2 = [2, model_in ex_model2] \<and>
       shape ?y = [3, model_out ex_model2] \<and> (0::int) < 5 \<and> (3::nat) \<noteq> 2 \<and> (3::nat) \<noteq> 1 \<and> (2::nat) \<noteq> 1"
    using ex_model2_inv sx by (simp add: ex_model2_sizes)
  note inst = shape_errors[of ex_layer ?x zero_rng ex_model2 ex_x2 "[2]" 5 ?y 2 3]
  have a: "fst (BnnLayer_forward ex_layer ?x zero_rng) = Inl RuntimeError"
    using inst h1 by blast
  have b: "fst (elbo_loss ex_model2 ex_x2 ?y 5 zero_rng) = Inl ValueError"
    using inst h3 by blast
  show ?thesis using a b ex_layer_inv ex_model2_inv sx by blast
qed

subsection \<open>Rounding to 32-bit floats\<close>

lemma round_even_int: "round_even (of_int n) = n"
  by (simp add: round_even_def)

lemma round_even_ge_floor: "\<lfloor>r\<rfloor> \<le> round_even r"
  by (simp add: round_even_def Let_def)


lemma round32_binade:
  assumes "2 powr of_int e \<le> x" "x < 2 powr of_int (e + 1)" "- 126 \<le> e"
  shows "round32 x = of_int (round_even (x / 2 powr of_int (e - 23))) * 2 powr of_int (e - 23)"
proof -
  have pos: "0 < x" using assms(1) by (smt (verit) powr_gt_zero)
  have "\<lfloor>log 2 x\<rfloor> = e"
    using assms(1,2) pos by (subst floor_log_eq_powr_iff) simp_all
  then show ?thesis using pos assms(3) by (simp add: round32_def Let_def max_def)
qed

lemma pow2_m23: "(2::real) powr of_int (0 - 23) = 1 / 8388608"
  by (simp add: powr_minus_divide)

lemma round32_one: "round32 1 = 1"
proof -
  have "round32 1 = of_int (round_even (1 / 2 powr of_int (0 - 23))) * 2 powr of_int (0 - 23)"
    by (rule round32_binade) simp_all
  also have "\<dots> = of_int (round_even (of_int 8388608)) * (1 / 8388608)"
    unfolding pow2_m23 by simp
  finally show ?thesis unfolding round_even_int by simp
qed

lemma pow2_shift:
  "(2 :: real) powr (a - 23) * 8388608 = 2 powr a"
  "(2 :: real) powr a / 2 powr (a - 23) = 8388608"
proof -
  have d: "(2 :: real) powr (a - 23) = 2 powr a / 2 powr 23" by (rule powr_diff)
  have n: "(2 :: real) powr 23 = 8388608" by simp
  show "(2 :: real) powr (a - 23) * 8388608 = 2 powr a" unfolding d n by simp
  have "0 < (2 :: real) powr a" by simp
  then show "(2 :: real) powr a / 2 powr (a - 23) = 8388608" unfolding d n by simp
qed

lemma round32_nonneg:
  assumes "0 \<le> v"
  shows "0 \<le> round32 v"
proof (cases "v = 0")
  case True
  then show ?thesis by (simp add: round32_def)
next
  case False
  let ?q = "max \<lfloor>log 2 \<bar>v\<bar>\<rfloor> (- 126) - 23"
  have "0 \<le> v / 2 powr of_int ?q" using assms by simp
  then have "0 \<le> \<lfloor>v / 2 powr of_int ?q\<rfloor>" by simp
  then have "0 \<le> round_even (v / 2 powr of_int ?q)"
    using round_even_ge_floor[of "v / 2 powr of_int ?q"] by linarith
  then show ?thesis using False by (simp add: round32_def Let_def)
qed

lemma round32_ge_one:
  assumes "1 \<le> v"
  shows "1 \<le> round32 v"
proof -
  let ?e = "\<lfloor>log 2 v\<rfloor>"
  have pos: "0 < v" using assms by simp
  have e0: "0 \<le> ?e" using assms by simp
  have lo: "2 powr of_int ?e \<le> v" and hi: "v < 2 powr of_int (?e + 1)"
    using floor_log_eq_powr_iff[of v 2 ?e] pos by simp_all
  have r: "round32 v = of_int (round_even (v / 2 powr of_int (?e - 23))) * 2 powr of_int (?e - 23)"
    using lo hi e0 by (intro round32_binade) simp_all
  have "2 powr of_int ?e / 2 powr of_int (?e - 23) \<le> v / 2 powr of_int (?e - 23)"
    using lo by (simp add: divide_right_mono)
  moreover have "2 powr of_int ?e / 2 powr of_int (?e - 23) = (of_int 8388608 :: real)"
    using pow2_shift[of "of_int ?e"] by simp
  ultimately have "(of_int 8388608 :: real) \<le> v / 2 powr of_int (?e - 23)" by simp
  then have "8388608 \<le> \<lfloor>v / 2 powr of_int (?e - 23)\<rfloor>" by (simp add: le_floor_iff)
  then have "8388608 \<le> round_even (v / 2 powr of_int (?e - 23))"
    using round_even_ge_floor[of "v / 2 powr of_int (?e - 23)"] by linarith
  then have "(8388608 :: real) \<le> of_int (round_even (v / 2 powr of_int (?e - 23)))"
    by linarith
  then have "8388608 * 2 powr of_int (?e - 23) \<le> round32 v"
    unfolding r by (intro mult_right_mono) simp_all
  moreover have "8388608 * 2 powr of_int (?e - 23) = (2 :: real) powr of_int ?e"
    using pow2_shift[of "of_int ?e"] by simp
  moreover have "1 \<le> (2 :: real) powr of_int ?e" using e0 by (simp add: ge_one_powr_ge_zero)
  ultimately show ?thesis by linarith
qed

lemma rounding_float32: "rounding float32"
  by (simp add: rounding_def float32_def round32_one round32_nonneg round32_ge_one)
     (simp add: round32_def)

lemma rounding_exact: "rounding exact_format"
  by (simp add: rounding_def exact_format_def)

text \<open>The roundings of the example: two powers of 2, and \<open>1 + 2 powr -28\<close>, which is lost.\<close>

lemma pow2_m37: "(2::real) powr of_int (- 14 - 23) = 1 / 137438953472"
  by (simp add: powr_minus_divide)

lemma pow2_m51: "(2::real) powr of_int (- 28 - 23) = 1 / 2251799813685248"
  by (simp add: powr_minus_divide)

lemma round32_small: "round32 (1 / 16384) = 1 / 16384"
proof -
  have lo: "(2::real) powr of_int (- 14) \<le> 1 / 16384"
    and hi: "(1 / 16384 :: real) < 2 powr of_int (- 14 + 1)"
    by (simp_all add: powr_minus_divide)
  have "round32 (1 / 16384)
      = of_int (round_even ((1 / 16384) / 2 powr of_int (- 14 - 23))) * 2 powr of_int (- 14 - 23)"
    using lo hi by (rule round32_binade) simp
  also have "\<dots> = of_int (round_even (of_int 8388608)) * (1 / 137438953472)"
    unfolding pow2_m37 by simp
  finally show ?thesis unfolding round_even_int by simp
qed

lemma round32_square: "round32 (1 / 268435456) = 1 / 268435456"
proof -
  have lo: "(2::real) powr of_int (- 28) \<le> 1 / 268435456"
    and hi: "(1 / 268435456 :: real) < 2 powr of_int (- 28 + 1)"
    by (simp_all add: powr_minus_divide)
  have "round32 (1 / 268435456)
      = of_int (round_even ((1 / 268435456) / 2 powr of_int (- 28 - 23))) * 2 powr of_int (- 28 - 23)"
    using lo hi by (rule round32_binade) simp
  also have "\<dots> = of_int (round_even (of_int 8388608)) * (1 / 2251799813685248)"
    unfolding pow2_m51 by simp
  finally show ?thesis unfolding round_even_int by simp
qed

lemma round32_absorbed: "round32 (1 + 1 / 268435456) = 1"
proof -
  have lo: "(2::real) powr of_int 0 \<le> 1 + 1 / 268435456"
    and hi: "(1 + 1 / 268435456 :: real) < 2 powr of_int (0 + 1)"
    by simp_all
  have b: "round32 (1 + 1 / 268435456)
      = of_int (round_even ((1 + 1 / 268435456) / 2 powr of_int (0 - 23))) * 2 powr of_int (0 - 23)"
    using lo hi by (rule round32_binade) simp
  have v: "(1 + 1 / 268435456) / (1 / 8388608) = (8388608 + 1 / 32 :: real)"
    by simp
  have f: "\<lfloor>8388608 + 1 / 32 :: real\<rfloor> = 8388608"
    by (simp add: floor_eq_iff)
  have "round_even (8388608 + 1 / 32) = 8388608"
    by (simp add: round_even_def f)
  then show ?thesis unfolding b pow2_m23 v by simp
qed



subsection \<open>The divergence of a layer, rounded\<close>

lemma fl_zero: "rounding F \<Longrightarrow> fl F 0 = Some 0"
  by (simp add: rounding_def fl_def)

lemma fl_one: "rounding F \<Longrightarrow> fl F 1 = Some 1"
  by (simp add: rounding_def fl_def)



text \<open>With one scale for both distributions \<open>var_ratio\<close> is 1 and its logarithm 0.\<close>

lemma kl_elem_fl_shared:
  assumes "rounding F" "0 < \<sigma>"
  shows "kl_elem_fl F (Some m) (Some \<sigma>) (Some 0) (Some \<sigma>)
       = fop F (*) (Some 0.5)
           (fop F (-)
              (fop F (-)
                 (fop F (+) (Some 1) (let d = fdiv F (fl F (m - 0)) (Some \<sigma>) in fop F (*) d d))
                 (Some 1))
              (Some 0))"
proof -
  have r: "fdiv F (Some \<sigma>) (Some \<sigma>) = Some 1"
    using assms by (simp add: fdiv_def fl_one)
  have v: "fop F (*) (Some 1) (Some 1) = Some 1"
    using assms(1) by (simp add: fop_def fl_one)
  have l: "flog F (Some 1) = Some 0"
    using assms(1) by (simp add: flog_def fl_zero)
  have s: "fop F (-) (Some m) (Some 0) = fl F (m - 0)"
    by (simp add: fop_def)
  show ?thesis
    unfolding kl_elem_fl_def Let_def r v l s ..
qed


lemma kl_elem_fl_zero:
  assumes "rounding F" "0 < \<sigma>"
  shows "kl_elem_fl F (Some 0) (Some \<sigma>) (Some 0) (Some \<sigma>) = Some 0"
  unfolding kl_elem_fl_shared[OF assms]
  using assms by (simp add: fop_def fdiv_def fl_zero fl_one Let_def)





lemma kl_fl_zip:
  "map (\<lambda>((pm, qm), s). kl_elem_fl F pm s qm s)
       (zip (zip (map Some ms) (map Some (map (\<lambda>_. 0) ms))) (map (fexp F) ss))
   = map (\<lambda>(m, s). kl_elem_fl F (Some m) (fexp F s) (Some 0) (fexp F s)) (zip ms ss)"
proof (induction ms arbitrary: ss)
  case Nil
  show ?case by simp
next
  case (Cons m ms)
  show ?case
  proof (cases ss)
    case Nil
    then show ?thesis by simp
  next
    case (Cons s ss')
    then show ?thesis using Cons.IH[of ss'] by simp
  qed
qed

text \<open>The pair when its tensors have one shape.\<close>

lemma kl_pair_fl_value:
  assumes "wf_tensor mu" "wf_tensor std" "shape mu = shape std"
  shows "kl_pair_fl F mu std =
           (if list_all scale_ok (map (fexp F) (data std))
            then Inr (fsum F (elems_fl F mu std)) else Inl ValueError)"
proof -
  have wfz: "wf_tensor (zeros_like mu)" using assms by (simp add: wf_tensor_def zeros_like_def)
  have e1: "expand std (shape std) = data std" by (rule expand_same[OF assms(2)])
  have e2: "expand mu (shape std) = data mu" using expand_same[OF assms(1)] assms(3) by simp
  have e3: "expand (zeros_like mu) (shape std) = map (\<lambda>_. 0) (data mu)"
    using expand_same[OF wfz] assms(3) by (simp add: zeros_like_def)
  have L: "map (\<lambda>((pm, qm), s). kl_elem_fl F pm s qm s)
             (zip (zip (map Some (data mu)) (map Some (map (\<lambda>_. 0) (data mu))))
                  (map (fexp F) (data std)))
         = elems_fl F mu std"
    by (simp only: kl_fl_zip elems_fl_def)
  show ?thesis
    unfolding kl_pair_fl_def assms(3) broadcast_shapes_same option.case Let_def e1 e2 e3 L ..
qed



lemma finite_scales_ok:
  assumes "finite_scales F l"
  shows "list_all scale_ok (map (fexp F) (data (weight_std l)))"
    and "list_all scale_ok (map (fexp F) (data (bias_std l)))"
    and "\<forall>s\<in>set (data (weight_std l)). \<exists>v. fexp F s = Some v \<and> 0 < v"
    and "\<forall>s\<in>set (data (bias_std l)). \<exists>v. fexp F s = Some v \<and> 0 < v"
  using assms
  by (auto simp: finite_scales_def list_all_iff scale_ok_def split: option.splits)

lemma layer_inv_pairs:
  assumes "layer_inv l"
  shows "wf_tensor (weight_mu l)" "wf_tensor (weight_std l)" "shape (weight_mu l) = shape (weight_std l)"
    and "wf_tensor (bias_mu l)" "wf_tensor (bias_std l)" "shape (bias_mu l) = shape (bias_std l)"
  using assms by (simp_all add: layer_inv_def)

lemma BnnLayer_kl_fl_value:
  assumes "layer_inv l"
  shows "BnnLayer_kl_divergence_fl F l =
     (if list_all scale_ok (map (fexp F) (data (weight_std l)))
         \<and> list_all scale_ok (map (fexp F) (data (bias_std l)))
      then Inr (fop F (+) (fsum F (elems_fl F (weight_mu l) (weight_std l)))
                          (fsum F (elems_fl F (bias_mu l) (bias_std l))))
      else Inl ValueError)"
  unfolding BnnLayer_kl_divergence_fl_def
    kl_pair_fl_value[OF layer_inv_pairs(1,2,3)[OF assms]]
    kl_pair_fl_value[OF layer_inv_pairs(4,5,6)[OF assms]]
  by simp

text \<open>Without rounding the elements are those of \<open>half_sq\<close>.\<close>

lemma fsum_exact: "foldl (fop exact_format (+)) (Some a) (map Some xs) = Some (a + sum_list xs)"
  by (induction xs arbitrary: a) (simp_all add: fop_def fl_def exact_format_def add.assoc)

lemma kl_elem_exact:
  "kl_elem_fl exact_format (Some m) (fexp exact_format s) (Some 0) (fexp exact_format s)
     = Some (0.5 * (m / exp s)\<^sup>2)"
  by (simp add: kl_elem_fl_def fexp_def fop_def fdiv_def flog_def fl_def exact_format_def
      power2_eq_square)

lemma fsum_elems_exact: "fsum exact_format (elems_fl exact_format mu std) = Some (half_sq mu std)"
proof -
  have E: "elems_fl exact_format mu std
      = map Some (map (\<lambda>(m, s). 0.5 * (m / exp s)\<^sup>2) (zip (data mu) (data std)))"
    by (simp add: elems_fl_def kl_elem_exact case_prod_beta)
  show ?thesis unfolding fsum_def E fsum_exact half_sq_def by simp
qed

lemma BnnLayer_kl_exact:
  assumes "layer_inv l"
  shows "BnnLayer_kl_divergence_fl exact_format l
       = Inr (Some (half_sq (weight_mu l) (weight_std l) + half_sq (bias_mu l) (bias_std l)))"
proof -
  have ok: "list_all scale_ok (map (fexp exact_format) xs)" for xs
    by (simp add: list_all_iff scale_ok_def fexp_def fl_def exact_format_def)
  have plus: "fop exact_format (+) (Some a) (Some b) = Some (a + b)" for a b
    by (simp add: fop_def fl_def exact_format_def)
  show ?thesis
    unfolding BnnLayer_kl_fl_value[OF assms] fsum_elems_exact plus
    using ok by simp
qed

text \<open>The 32-bit roundings of the examples.\<close>

lemma in_range32: "\<bar>v\<bar> \<le> 2 \<Longrightarrow> in_range float32 v"
proof -
  assume v: "\<bar>v\<bar> \<le> 2"
  have "(1 :: real) \<le> 2 - 1 / 2 ^ 23" by simp
  moreover have "(2 :: real) \<le> 2 ^ 127" using power_increasing[of 1 127 "2::real"] by simp
  ultimately have "(1 :: real) * 2 \<le> (2 - 1 / 2 ^ 23) * 2 ^ 127"
    by (intro mult_mono) simp_all
  then show ?thesis using v by (simp add: float32_def del: power_numeral)
qed

lemma fl32_values:
  "fl float32 0 = Some 0" "fl float32 1 = Some 1"
  "fl float32 (1 / 16384) = Some (1 / 16384)"
  "fl float32 (1 / 268435456) = Some (1 / 268435456)"
  "fl float32 (1 + 1 / 268435456) = Some 1"
  "fl float32 (268435457 / 268435456) = Some 1"
proof -
  have r: "rnd float32 = round32" by (simp add: float32_def)
  show "fl float32 0 = Some 0" "fl float32 1 = Some 1"
    using rounding_float32 by (simp_all add: fl_zero fl_one)
  show "fl float32 (1 / 16384) = Some (1 / 16384)"
    unfolding fl_def r round32_small using in_range32[of "1 / 16384"] by simp
  show "fl float32 (1 / 268435456) = Some (1 / 268435456)"
    unfolding fl_def r round32_square using in_range32[of "1 / 268435456"] by simp
  show a: "fl float32 (1 + 1 / 268435456) = Some 1"
    unfolding fl_def r round32_absorbed using in_range32[of 1] by simp
  have "(268435457 / 268435456 :: real) = 1 + 1 / 268435456" by simp
  then show "fl float32 (268435457 / 268435456) = Some 1" using a by simp
qed

lemma fexp32_zero: "fexp float32 0 = Some 1"
  by (simp add: fexp_def fl32_values)


lemma kl_elem32_small:
  "kl_elem_fl float32 (Some (1 / 16384)) (Some 1) (Some 0) (Some 1) = Some 0"
  unfolding kl_elem_fl_shared[OF rounding_float32 zero_less_one]
  by (simp add: fdiv_def fop_def Let_def fl32_values)

lemma kl_elem32_zero:
  "kl_elem_fl float32 (Some 0) (Some 1) (Some 0) (Some 1) = Some 0"
  by (rule kl_elem_fl_zero[OF rounding_float32]) simp

lemma ex_small_inv: "layer_inv ex_small" "layer_inv ex_small_bias" "layer_inv ex_underflow"
  by (simp_all add: layer_inv_def ex_small_def ex_small_bias_def ex_underflow_def wf_tensor_def)

lemma fsum32_single_zero: "fsum float32 [Some 0] = Some 0"
  by (simp add: fsum_def fop_def fl32_values)

lemma ex_small_kl32: "BnnLayer_kl_divergence_fl float32 ex_small = Inr (Some 0)"
  unfolding BnnLayer_kl_fl_value[OF ex_small_inv(1)]
  by (simp add: ex_small_def elems_fl_def fexp32_zero scale_ok_def kl_elem32_small kl_elem32_zero
      fsum32_single_zero fop_def fl32_values)



text \<open>
  Claim C2, as stated: \<open>kl_divergence()\<close> returns exactly the sum of
  \<open>0.5 * (mu / exp log_sigma)\<^sup>2\<close>. The code evaluates
  \<open>0.5 * (var_ratio + t1 - 1 - log var_ratio)\<close> in 32-bit floats. For the layer whose
  weight mean is \<open>2 powr -14\<close> and whose other parameters are 0, \<open>t1\<close> is \<open>2 powr -28\<close>,
  the sum \<open>1 + t1\<close> rounds to 1, and the code returns 0, while the closed form is
  \<open>2 powr -29\<close>.
\<close>

theorem kl_divergence_rounding_counterexample:
  "layer_inv ex_small
   \<and> BnnLayer_kl_divergence_fl float32 ex_small = Inr (Some 0)
   \<and> (\<Sum>(m, s)\<leftarrow>zip (data (weight_mu ex_small)) (data (weight_std ex_small)). 0.5 * (m / exp s)\<^sup>2)
     + (\<Sum>(m, s)\<leftarrow>zip (data (bias_mu ex_small)) (data (bias_std ex_small)). 0.5 * (m / exp s)\<^sup>2)
     = 1 / 536870912"
proof -
  have "(\<Sum>(m, s)\<leftarrow>zip (data (weight_mu ex_small)) (data (weight_std ex_small)). 0.5 * (m / exp s)\<^sup>2)
     + (\<Sum>(m, s)\<leftarrow>zip (data (bias_mu ex_small)) (data (bias_std ex_small)). 0.5 * (m / exp s)\<^sup>2)
     = (1 / 536870912 :: real)"
    by (simp add: ex_small_def power2_eq_square)
  then show ?thesis using ex_small_inv(1) ex_small_kl32 by simp
qed

text \<open>
  Claim C2, amended: \<open>kl_divergence()\<close> evaluates the closed form of the library on
  every element of the weight pair and of the bias pair and sums, without sampling.
  In exact arithmetic the value is the sum of \<open>0.5 * (mu / exp log_sigma)\<^sup>2\<close>, each
  term the divergence of \<open>Normal(mu, exp log_sigma)\<close> from \<open>Normal(0, exp log_sigma)\<close>.
  In a rounding arithmetic, where every \<open>exp log_sigma\<close> is a positive finite number,
  the value is the rounded sum of the rounded terms, and in each term \<open>var_ratio\<close> is
  1 and its logarithm 0: the term is \<open>0.5 * (((1 + t1) - 1) - 0)\<close> with every operation
  rounded, \<open>t1\<close> the rounded square of the rounded \<open>mu / sigma\<close>.
\<close>

theorem kl_divergence_rounded_form:
  assumes "layer_inv l"
  shows "BnnLayer_kl_divergence_fl exact_format l =
           Inr (Some ((\<Sum>(m, s)\<leftarrow>zip (data (weight_mu l)) (data (weight_std l)). 0.5 * (m / exp s)\<^sup>2)
                    + (\<Sum>(m, s)\<leftarrow>zip (data (bias_mu l)) (data (bias_std l)). 0.5 * (m / exp s)\<^sup>2)))
       \<and> BnnLayer_kl_divergence l =
           Inr ((\<Sum>(m, s)\<leftarrow>zip (data (weight_mu l)) (data (weight_std l)). 0.5 * (m / exp s)\<^sup>2)
              + (\<Sum>(m, s)\<leftarrow>zip (data (bias_mu l)) (data (bias_std l)). 0.5 * (m / exp s)\<^sup>2))
       \<and> length (zip (data (weight_mu l)) (data (weight_std l)))
           = nat (out_features l) * nat (in_features l)
       \<and> length (zip (data (bias_mu l)) (data (bias_std l))) = nat (out_features l)
       \<and> 0.5 * (mu / exp log_sigma)\<^sup>2 = gauss_kl mu (exp log_sigma) 0 (exp log_sigma)
       \<and> (finite_scales F l \<longrightarrow>
            BnnLayer_kl_divergence_fl F l =
              Inr (fop F (+)
                (fsum F (map (\<lambda>(m, s). kl_elem_fl F (Some m) (fexp F s) (Some 0) (fexp F s))
                             (zip (data (weight_mu l)) (data (weight_std l)))))
                (fsum F (map (\<lambda>(m, s). kl_elem_fl F (Some m) (fexp F s) (Some 0) (fexp F s))
                             (zip (data (bias_mu l)) (data (bias_std l)))))))
       \<and> (rounding F \<and> 0 < sigma \<longrightarrow>
            kl_elem_fl F (Some mu) (Some sigma) (Some 0) (Some sigma)
              = fop F (*) (Some 0.5)
                  (fop F (-)
                     (fop F (-)
                        (fop F (+) (Some 1)
                           (let d = fdiv F (fl F (mu - 0)) (Some sigma) in fop F (*) d d))
                        (Some 1))
                     (Some 0)))"
proof -
  have a: "BnnLayer_kl_divergence_fl exact_format l =
           Inr (Some ((\<Sum>(m, s)\<leftarrow>zip (data (weight_mu l)) (data (weight_std l)). 0.5 * (m / exp s)\<^sup>2)
                    + (\<Sum>(m, s)\<leftarrow>zip (data (bias_mu l)) (data (bias_std l)). 0.5 * (m / exp s)\<^sup>2)))"
    using BnnLayer_kl_exact[OF assms] by (simp add: half_sq_def)
  have b: "BnnLayer_kl_divergence l =
           Inr ((\<Sum>(m, s)\<leftarrow>zip (data (weight_mu l)) (data (weight_std l)). 0.5 * (m / exp s)\<^sup>2)
              + (\<Sum>(m, s)\<leftarrow>zip (data (bias_mu l)) (data (bias_std l)). 0.5 * (m / exp s)\<^sup>2))"
    using BnnLayer_kl_value[OF assms] by (simp add: half_sq_def)
  have c: "length (zip (data (weight_mu l)) (data (weight_std l)))
           = nat (out_features l) * nat (in_features l)"
    and d: "length (zip (data (bias_mu l)) (data (bias_std l))) = nat (out_features l)"
    using assms by (simp_all add: layer_inv_def wf_tensor_def)
  have e: "0.5 * (mu / exp log_sigma)\<^sup>2 = gauss_kl mu (exp log_sigma) 0 (exp log_sigma)"
    by (simp add: gauss_kl_shared)
  have f: "BnnLayer_kl_divergence_fl F l =
              Inr (fop F (+)
                (fsum F (map (\<lambda>(m, s). kl_elem_fl F (Some m) (fexp F s) (Some 0) (fexp F s))
                             (zip (data (weight_mu l)) (data (weight_std l)))))
                (fsum F (map (\<lambda>(m, s). kl_elem_fl F (Some m) (fexp F s) (Some 0) (fexp F s))
                             (zip (data (bias_mu l)) (data (bias_std l))))))"
    if "finite_scales F l"
    unfolding BnnLayer_kl_fl_value[OF assms] elems_fl_def
    using finite_scales_ok(1,2)[OF that] by simp
  have g: "kl_elem_fl F (Some mu) (Some sigma) (Some 0) (Some sigma)
              = fop F (*) (Some 0.5)
                  (fop F (-)
                     (fop F (-)
                        (fop F (+) (Some 1)
                           (let d = fdiv F (fl F (mu - 0)) (Some sigma) in fop F (*) d d))
                        (Some 1))
                     (Some 0))"
    if "rounding F \<and> 0 < sigma"
    using that kl_elem_fl_shared[of F sigma mu] by blast
  show ?thesis using a b c d e f g by blast
qed

theorem kl_divergence_rounded_form_witness:
  "layer_inv ex_layer
   \<and> BnnLayer_kl_divergence_fl exact_format ex_layer = Inr (Some (13 / 2))
   \<and> BnnLayer_kl_divergence ex_layer = Inr (13 / 2)
   \<and> layer_inv ex_small \<and> finite_scales float32 ex_small \<and> rounding float32 \<and> (0 :: real) < 1
   \<and> BnnLayer_kl_divergence_fl float32 ex_small = Inr (Some 0)
   \<and> kl_elem_fl float32 (Some (1 / 16384)) (Some 1) (Some 0) (Some 1) = Some 0"
proof -
  note exact = kl_divergence_rounded_form[OF ex_layer_inv, where F = exact_format]
  have v: "BnnLayer_kl_divergence_fl exact_format ex_layer = Inr (Some (13 / 2))"
    "BnnLayer_kl_divergence ex_layer = Inr (13 / 2)"
    using exact by (simp_all add: ex_layer_def)
  have fs: "finite_scales float32 ex_small"
    by (simp add: finite_scales_def ex_small_def fexp32_zero)
  note single = kl_divergence_rounded_form[OF ex_small_inv(1), where F = float32 and sigma = 1
      and mu = "1 / 16384"]
  have w: "BnnLayer_kl_divergence_fl float32 ex_small = Inr (Some 0)"
    using single fs
    by (simp add: ex_small_def fexp32_zero kl_elem32_small kl_elem32_zero fsum32_single_zero
        fop_def fl32_values)
  have x: "kl_elem_fl float32 (Some (1 / 16384)) (Some 1) (Some 0) (Some 1) = Some 0"
    by (rule kl_elem32_small)
  show ?thesis using ex_layer_inv v ex_small_inv(1) fs rounding_float32 w x by simp
qed




end
